theory Spec2Isabelle
  imports Main
begin

section \<open>The batch: jobs, clusters and dependency edges\<close>

text \<open>
  A shallow embedding of the job-graph construction of
  \<^verbatim>\<open>joint_calling/jobs/variant_qc.py\<close> and of the cutoff validation and the
  entry point of \<^verbatim>\<open>scripts/final_filter.py\<close>.

  The Hail \<^verbatim>\<open>Batch\<close> object that the Python code mutates is an explicit state:
  the list of jobs created so far (a job handle is its position in that list) and the
  list of clusters provisioned so far. A job carries its name, its command (\<open>None\<close> for
  a job made by \<^verbatim>\<open>b.new_job\<close>, which has no command), the cluster it was submitted
  to, and the set of jobs it depends on (\<^verbatim>\<open>Job.depends_on\<close> adds to a set).
\<close>

record job =
  jname :: string
  command :: "string option"
  on_cluster :: "nat option"
  dependencies :: "nat set"

record cluster =
  cname :: string
  cscatter_count :: int
  cis_test :: bool
  cdepends_on :: "nat list option"
  clong :: bool

record batch =
  jobs :: "job list"
  clusters :: "cluster list"

text \<open>\<^verbatim>\<open>b.new_job(name)\<close> of hailtop.batch: a new job with no command and no edge.\<close>

definition new_job :: "string \<Rightarrow> batch \<Rightarrow> nat \<times> batch" where
  "new_job name b =
     (length (jobs b),
      b\<lparr>jobs := jobs b @ [\<lparr>jname = name, command = None, on_cluster = None, dependencies = {}\<rparr>]\<rparr>)"

text \<open>\<^verbatim>\<open>j.depends_on(*js)\<close> of hailtop.batch: adds every job of \<open>js\<close> to the set of
  dependencies of \<open>j\<close>.\<close>

definition Job_depends_on :: "nat \<Rightarrow> nat list \<Rightarrow> batch \<Rightarrow> batch" where
  "Job_depends_on j js b =
     (if j < length (jobs b)
      then b\<lparr>jobs := (jobs b)[j := (jobs b ! j)\<lparr>dependencies := dependencies (jobs b ! j) \<union> set js\<rparr>]\<rparr>
      else b)"

text \<open>
  Modelled from the spec: \<^verbatim>\<open>dataproc.get_cluster\<close> is not among the sources. By 4.2
  of the specification each call provisions a distinct named executor, which records its
  parallelism, the test mode, the upstream jobs that gate it and whether it is long-lived;
  two executors of the same name are independent.
\<close>

definition get_cluster ::
  "string \<Rightarrow> int \<Rightarrow> bool \<Rightarrow> nat list option \<Rightarrow> bool \<Rightarrow> batch \<Rightarrow> nat \<times> batch" where
  "get_cluster name scatter test deps long b =
     (length (clusters b),
      b\<lparr>clusters := clusters b @
         [\<lparr>cname = name, cscatter_count = scatter, cis_test = test,
           cdepends_on = deps, clong = long\<rparr>]\<rparr>)"

text \<open>
  Modelled from the spec: \<^verbatim>\<open>DataprocCluster.add_job\<close> is not among the sources. By
  4.3 of the specification \<open>addStage(executor, command, name)\<close> registers one stage that
  carries the command on that executor; its stage-level edges are the ones added
  afterwards by \<open>dependsOn\<close>.
\<close>

definition add_job :: "nat \<Rightarrow> string \<Rightarrow> string \<Rightarrow> batch \<Rightarrow> nat \<times> batch" where
  "add_job cl script job_name b =
     (length (jobs b),
      b\<lparr>jobs := jobs b @
         [\<lparr>jname = job_name, command = Some script, on_cluster = Some cl, dependencies = {}\<rparr>]\<rparr>)"

section \<open>The environment of a run\<close>

text \<open>
  What the construction reads from outside its arguments: the constant
  \<^verbatim>\<open>utils.SCRIPTS_DIR\<close>, the state of the artifact store as \<^verbatim>\<open>utils.file_exists\<close>
  reports it, the string of the UUID that \<^verbatim>\<open>uuid.uuid4()\<close> draws in this call, and
  Python's \<^verbatim>\<open>pattern.format(CHROM=chrom)\<close>, which raises on a pattern that names
  another field (\<open>None\<close> here).
\<close>

record env =
  SCRIPTS_DIR :: string
  file_exists :: "string \<Rightarrow> bool"
  uuid4 :: string
  format_CHROM :: "string \<Rightarrow> string \<Rightarrow> string option"

datatype path_arg = Path string | Paths "string list"

text \<open>
  Modelled from the spec: \<^verbatim>\<open>utils.can_reuse\<close> is not among the sources. By 4.1 of the
  specification it returns false unconditionally when the overwrite flag is true, and
  otherwise true iff every listed path exists; it accepts a single path or a list.
\<close>

definition can_reuse :: "env \<Rightarrow> path_arg \<Rightarrow> bool \<Rightarrow> bool" where
  "can_reuse e fpath overwrite =
     (if overwrite then False
      else (case fpath of Path p \<Rightarrow> file_exists e p | Paths ps \<Rightarrow> list_all (file_exists e) ps))"

text \<open>\<^verbatim>\<open>os.path.join(a, b)\<close> (posixpath) for two components.\<close>

definition join :: "string \<Rightarrow> string \<Rightarrow> string" where
  "join a b =
     (if b \<noteq> [] \<and> hd b = CHR ''/'' then b
      else if a = [] \<or> last a = CHR ''/'' then a @ b
      else a @ ''/'' @ b)"

text \<open>Python's \<^verbatim>\<open>str(n)\<close> for an integer: decimal digits, with a sign.\<close>

fun digits :: "nat \<Rightarrow> string" where
  "digits n = (if n < 10 then [char_of (48 + n)] else digits (n div 10) @ [char_of (48 + n mod 10)])"

declare digits.simps [simp del]

definition str_int :: "int \<Rightarrow> string" where
  "str_int i = (if i < 0 then ''-'' @ digits (nat (- i)) else digits (nat i))"

text \<open>Truthiness of an optional string and of an optional list, as \<^verbatim>\<open>if x:\<close> tests it.\<close>

definition truthy_str :: "string option \<Rightarrow> bool" where
  "truthy_str s = (case s of None \<Rightarrow> False | Some t \<Rightarrow> t \<noteq> [])"

definition truthy_list :: "'a list option \<Rightarrow> bool" where
  "truthy_list xs = (case xs of None \<Rightarrow> False | Some ys \<Rightarrow> ys \<noteq> [])"

text \<open>\<^verbatim>\<open>xs or []\<close>, and the text an f-string prints for an optional string.\<close>

definition or_empty :: "'a list option \<Rightarrow> 'a list" where
  "or_empty xs = (case xs of None \<Rightarrow> [] | Some ys \<Rightarrow> ys)"

definition str_opt :: "string option \<Rightarrow> string" where
  "str_opt s = (case s of None \<Rightarrow> ''None'' | Some t \<Rightarrow> t)"

section \<open>The evaluation sub-graphs\<close>

subsection \<open>\<^verbatim>\<open>add_rf_eval_jobs\<close> (variant\_qc.py, lines 288 to 348)\<close>

definition rf_evaluation_cmd ::
  "env \<Rightarrow> string \<Rightarrow> string \<Rightarrow> string \<Rightarrow> string \<Rightarrow> string option \<Rightarrow> string \<Rightarrow> string \<Rightarrow> string \<Rightarrow> string" where
  "rf_evaluation_cmd e combined_mt_path rf_annotations_ht_path info_split_ht_path rf_result_ht_path
       fam_stats_ht_path work_bucket score_bin_ht_path score_bin_agg_ht_path =
     SCRIPTS_DIR e @ ''/evaluation.py --overwrite ''
     @ ''--mt '' @ combined_mt_path @ '' ''
     @ ''--rf-annotations-ht '' @ rf_annotations_ht_path @ '' ''
     @ ''--info-split-ht '' @ info_split_ht_path @ '' ''
     @ (if truthy_str fam_stats_ht_path then ''--fam-stats-ht '' @ str_opt fam_stats_ht_path @ '' '' else [])
     @ ''--rf-results-ht '' @ rf_result_ht_path @ '' ''
     @ ''--bucket '' @ work_bucket @ '' ''
     @ ''--out-bin-ht '' @ score_bin_ht_path @ '' ''
     @ ''--out-aggregated-bin-ht '' @ score_bin_agg_ht_path @ '' ''
     @ ''--run-sanity-checks ''"

definition rf_final_filter_cmd ::
  "env \<Rightarrow> string \<Rightarrow> string \<Rightarrow> string \<Rightarrow> string \<Rightarrow> string \<Rightarrow> string \<Rightarrow> string \<Rightarrow> string" where
  "rf_final_filter_cmd e final_filter_ht_path rf_model_id info_split_ht_path freq_ht_path
       score_bin_ht_path score_bin_agg_ht_path work_bucket =
     SCRIPTS_DIR e @ ''/final_filter.py --overwrite ''
     @ ''--out-final-filter-ht '' @ final_filter_ht_path @ '' ''
     @ ''--model-id '' @ rf_model_id @ '' ''
     @ ''--model-name RF ''
     @ ''--score-name RF ''
     @ ''--info-split-ht '' @ info_split_ht_path @ '' ''
     @ ''--freq-ht '' @ freq_ht_path @ '' ''
     @ ''--score-bin-ht '' @ score_bin_ht_path @ '' ''
     @ ''--score-bin-agg-ht '' @ score_bin_agg_ht_path @ '' '' @ ''--bucket '' @ work_bucket @ '' ''"

definition add_rf_eval_jobs ::
  "env \<Rightarrow> nat \<Rightarrow> string \<Rightarrow> string \<Rightarrow> string \<Rightarrow> string \<Rightarrow> string option \<Rightarrow> string \<Rightarrow> string \<Rightarrow> string
     \<Rightarrow> bool \<Rightarrow> nat list option \<Rightarrow> batch \<Rightarrow> (nat \<times> string) \<times> batch" where
  "add_rf_eval_jobs e dataproc_cluster combined_mt_path info_split_ht_path rf_result_ht_path
       rf_annotations_ht_path fam_stats_ht_path freq_ht_path rf_model_id work_bucket
       overwrite depends_on b =
     (let job_name = ''RF: evaluation'';
          score_bin_ht_path = join work_bucket ''rf-score-bin.ht'';
          score_bin_agg_ht_path = join work_bucket ''rf-score-agg-bin.ht'';
          (eval_job, b1) =
            (if overwrite \<or> \<not> file_exists e score_bin_ht_path then
               (let (j, b') = add_job dataproc_cluster
                       (rf_evaluation_cmd e combined_mt_path rf_annotations_ht_path
                          info_split_ht_path rf_result_ht_path fam_stats_ht_path work_bucket
                          score_bin_ht_path score_bin_agg_ht_path)
                       job_name b
                in (j, if truthy_list depends_on then Job_depends_on j (or_empty depends_on) b' else b'))
             else new_job (job_name @ '' [reuse]'') b);
          job_name = ''RF: final filter'';
          final_filter_ht_path = join work_bucket ''final-filter.ht'';
          (final_filter_job, b2) =
            (if overwrite \<or> \<not> file_exists e final_filter_ht_path then
               (let (j, b') = add_job dataproc_cluster
                       (rf_final_filter_cmd e final_filter_ht_path rf_model_id info_split_ht_path
                          freq_ht_path score_bin_ht_path score_bin_agg_ht_path work_bucket)
                       job_name b1
                in (j, Job_depends_on j [eval_job] b'))
             else new_job (job_name @ '' [reuse]'') b1)
      in ((final_filter_job, final_filter_ht_path), b2))"

subsection \<open>\<^verbatim>\<open>add_vqsr_eval_jobs\<close> (variant\_qc.py, lines 351 to 438)\<close>

definition load_vqsr_cmd :: "env \<Rightarrow> string \<Rightarrow> string \<Rightarrow> string \<Rightarrow> string" where
  "load_vqsr_cmd e vqsr_filters_split_ht_path final_gathered_vcf_path work_bucket =
     SCRIPTS_DIR e @ ''/load_vqsr.py --overwrite ''
     @ ''--split-multiallelic ''
     @ ''--out-path '' @ vqsr_filters_split_ht_path @ '' ''
     @ ''--vqsr-vcf-path '' @ final_gathered_vcf_path @ '' ''
     @ ''--bucket '' @ work_bucket @ '' ''"

definition vqsr_evaluation_cmd ::
  "env \<Rightarrow> string \<Rightarrow> string \<Rightarrow> string \<Rightarrow> string option \<Rightarrow> string option \<Rightarrow> string \<Rightarrow> string \<Rightarrow> string
     \<Rightarrow> string \<Rightarrow> string" where
  "vqsr_evaluation_cmd e combined_mt_path rf_annotations_ht_path info_split_ht_path
       fam_stats_ht_path rf_result_ht_path vqsr_filters_split_ht_path work_bucket
       score_bin_ht_path score_bin_agg_ht_path =
     SCRIPTS_DIR e @ ''/evaluation.py --overwrite ''
     @ ''--mt '' @ combined_mt_path @ '' ''
     @ ''--rf-annotations-ht '' @ rf_annotations_ht_path @ '' ''
     @ ''--info-split-ht '' @ info_split_ht_path @ '' ''
     @ (if truthy_str fam_stats_ht_path then ''--fam-stats-ht '' @ str_opt fam_stats_ht_path @ '' '' else [])
     @ (if rf_annotations_ht_path \<noteq> [] \<and> truthy_str rf_result_ht_path
        then ''--rf-result-ht '' @ str_opt rf_result_ht_path @ '' '' else [])
     @ ''--vqsr-filters-split-ht '' @ vqsr_filters_split_ht_path @ '' ''
     @ ''--bucket '' @ work_bucket @ '' ''
     @ ''--out-bin-ht '' @ score_bin_ht_path @ '' ''
     @ ''--out-aggregated-bin-ht '' @ score_bin_agg_ht_path @ '' ''
     @ ''--run-sanity-checks ''"

definition vqsr_final_filter_cmd ::
  "env \<Rightarrow> string \<Rightarrow> string \<Rightarrow> string \<Rightarrow> string \<Rightarrow> string \<Rightarrow> string \<Rightarrow> string \<Rightarrow> string \<Rightarrow> string" where
  "vqsr_final_filter_cmd e output_ht_path vqsr_filters_split_ht_path vqsr_model_id
       info_split_ht_path freq_ht_path score_bin_ht_path score_bin_agg_ht_path work_bucket =
     SCRIPTS_DIR e @ ''/final_filter.py --overwrite ''
     @ ''--out-final-filter-ht '' @ output_ht_path @ '' ''
     @ ''--vqsr-filters-split-ht '' @ vqsr_filters_split_ht_path @ '' ''
     @ ''--model-id '' @ vqsr_model_id @ '' ''
     @ ''--model-name VQSR ''
     @ ''--score-name AS_VQSLOD ''
     @ ''--info-split-ht '' @ info_split_ht_path @ '' ''
     @ ''--freq-ht '' @ freq_ht_path @ '' ''
     @ ''--score-bin-ht '' @ score_bin_ht_path @ '' ''
     @ ''--score-bin-agg-ht '' @ score_bin_agg_ht_path @ '' ''
     @ ''--bucket '' @ work_bucket @ '' ''"

definition add_vqsr_eval_jobs ::
  "env \<Rightarrow> nat \<Rightarrow> string \<Rightarrow> string \<Rightarrow> string \<Rightarrow> string \<Rightarrow> string option \<Rightarrow> string option \<Rightarrow> string
     \<Rightarrow> string \<Rightarrow> string \<Rightarrow> bool \<Rightarrow> nat \<Rightarrow> nat \<Rightarrow> string \<Rightarrow> batch \<Rightarrow> nat \<times> batch" where
  "add_vqsr_eval_jobs e dataproc_cluster combined_mt_path rf_annotations_ht_path
       info_split_ht_path final_gathered_vcf_path rf_result_ht_path fam_stats_ht_path
       freq_ht_path work_bucket analysis_bucket overwrite vqsr_vcf_job rf_anno_job
       output_ht_path b =
     (let job_name = ''AS-VQSR: load_vqsr'';
          vqsr_filters_split_ht_path = join work_bucket ''vqsr-filters-split.ht'';
          (load_vqsr_job, b1) =
            (if overwrite \<or> \<not> file_exists e vqsr_filters_split_ht_path then
               (let (j, b') = add_job dataproc_cluster
                       (load_vqsr_cmd e vqsr_filters_split_ht_path final_gathered_vcf_path work_bucket)
                       job_name b
                in (j, Job_depends_on j [vqsr_vcf_job] b'))
             else new_job (job_name @ '' [reuse]'') b);
          job_name = ''AS-VQSR: evaluation'';
          score_bin_ht_path = join work_bucket ''vqsr-score-bin.ht'';
          score_bin_agg_ht_path = join work_bucket ''vqsr-score-agg-bin.ht'';
          (eval_job, b2) =
            (if overwrite \<or> \<not> file_exists e score_bin_ht_path
                 \<or> \<not> file_exists e score_bin_agg_ht_path then
               (let (j, b') = add_job dataproc_cluster
                       (vqsr_evaluation_cmd e combined_mt_path rf_annotations_ht_path
                          info_split_ht_path fam_stats_ht_path rf_result_ht_path
                          vqsr_filters_split_ht_path work_bucket score_bin_ht_path
                          score_bin_agg_ht_path)
                       job_name b1
                in (j, Job_depends_on j [load_vqsr_job, rf_anno_job] b'))
             else new_job (job_name @ '' [reuse]'') b1);
          job_name = ''AS-VQSR: final filter'';
          vqsr_model_id = ''vqsr_model'';
          (final_filter_job, b3) =
            (if \<not> file_exists e output_ht_path then
               (let (j, b') = add_job dataproc_cluster
                       (vqsr_final_filter_cmd e output_ht_path vqsr_filters_split_ht_path
                          vqsr_model_id info_split_ht_path freq_ht_path score_bin_ht_path
                          score_bin_agg_ht_path work_bucket)
                       job_name b2
                in (j, Job_depends_on j [eval_job] b'))
             else new_job (job_name @ '' [reuse]'') b2)
      in (final_filter_job, b3))"

section \<open>\<^verbatim>\<open>add_variant_qc_jobs\<close> (variant\_qc.py, lines 21 to 285)\<close>

text \<open>
  The exceptions of the two files, as values: \<^verbatim>\<open>str.format\<close> raising on the path
  pattern; the five \<^verbatim>\<open>ValueError\<close>s of the cutoff checks of
  \<^verbatim>\<open>generate_final_filter_ht\<close>; an error raised by the work on the Hail tables, with its
  message; \<^verbatim>\<open>sys.exit\<close> with its message; and \<^verbatim>\<open>NameError\<close> with the name that is
  not defined.
\<close>

datatype error =
    FormatError
  | SnpCutoffsMutuallyExclusive
  | IndelCutoffsMutuallyExclusive
  | SnpCutoffMissing
  | IndelCutoffMissing
  | BinCutoffWithoutAggregatedBins
  | TableError string
  | SysExit string
  | NameError string

record qc_args =
  work_bucket :: string
  web_bucket :: string
  raw_combined_mt_path :: string
  hard_filter_ht_path :: string
  meta_ht_path :: string
  out_filtered_combined_mt_path :: string
  out_filtered_vcf_ptrn_path :: string
  sample_count :: int
  ped_file :: "string option"
  overwrite :: bool
  vqsr_params_d :: "(string \<times> string) list"
  scatter_count :: int
  is_test :: bool
  project_name :: string
  depends_on :: "nat list option"
  run_rf :: bool

subsection \<open>The artifact paths the function derives from its arguments\<close>

definition rf_bucket :: "qc_args \<Rightarrow> string" where
  "rf_bucket a = join (work_bucket a) ''rf''"

definition vqsr_bucket :: "qc_args \<Rightarrow> string" where
  "vqsr_bucket a = join (work_bucket a) ''vqsr''"

definition fam_stats_ht_path :: "qc_args \<Rightarrow> string option" where
  "fam_stats_ht_path a =
     (if truthy_str (ped_file a) then Some (join (work_bucket a) ''fam-stats.ht'') else None)"

definition allele_data_ht_path :: "qc_args \<Rightarrow> string" where
  "allele_data_ht_path a = join (work_bucket a) ''allele-data.ht''"

definition qc_ac_ht_path :: "qc_args \<Rightarrow> string" where
  "qc_ac_ht_path a = join (work_bucket a) ''qc-ac.ht''"

definition info_ht_path :: "qc_args \<Rightarrow> string" where
  "info_ht_path a = join (work_bucket a) ''info.ht''"

definition info_split_ht_path :: "qc_args \<Rightarrow> string" where
  "info_split_ht_path a = join (work_bucket a) ''info-split.ht''"

definition freq_ht_path :: "qc_args \<Rightarrow> string" where
  "freq_ht_path a = join (work_bucket a) ''frequencies.ht''"

definition rf_annotations_ht_path :: "qc_args \<Rightarrow> string" where
  "rf_annotations_ht_path a = join (work_bucket a) ''rf-annotations.ht''"

definition rf_result_ht_path :: "qc_args \<Rightarrow> string" where
  "rf_result_ht_path a = join (work_bucket a) ''rf-result.ht''"

definition vqsred_vcf_path :: "qc_args \<Rightarrow> string" where
  "vqsred_vcf_path a = join (vqsr_bucket a) ''output.vcf.gz''"

definition export_ht_path :: "qc_args \<Rightarrow> string" where
  "export_ht_path a = join (work_bucket a) ''export_vcf.ht''"

definition export_vcf_header_txt :: "qc_args \<Rightarrow> string" where
  "export_vcf_header_txt a = join (work_bucket a) ''export_vcf_header.txt''"

text \<open>\<^verbatim>\<open>rf_model_id = f'rf_{str(uuid.uuid4())[:8]}'\<close>\<close>

definition rf_model_id :: "env \<Rightarrow> string" where
  "rf_model_id e = ''rf_'' @ take 8 (uuid4 e)"

text \<open>\<^verbatim>\<open>list(map(str, range(1, 22 + 1))) + ['X', 'Y']\<close>\<close>

definition chromosomes :: "string list" where
  "chromosomes = map str_int [1..22] @ [''X'', ''Y'']"

subsection \<open>The commands of the stages\<close>

definition generate_info_cmd :: "env \<Rightarrow> qc_args \<Rightarrow> string" where
  "generate_info_cmd e a =
     SCRIPTS_DIR e @ ''/generate_info_ht.py --overwrite ''
     @ ''--mt '' @ raw_combined_mt_path a @ '' ''
     @ ''--out-info-ht '' @ info_ht_path a @ '' ''
     @ ''--out-split-info-ht '' @ info_split_ht_path a"

definition generate_variant_qc_annotations_cmd :: "env \<Rightarrow> qc_args \<Rightarrow> string" where
  "generate_variant_qc_annotations_cmd e a =
     SCRIPTS_DIR e @ ''/generate_variant_qc_annotations.py ''
     @ (if overwrite a then ''--overwrite '' else [])
     @ ''--mt '' @ raw_combined_mt_path a @ '' ''
     @ ''--hard-filtered-samples-ht '' @ hard_filter_ht_path a @ '' ''
     @ ''--meta-ht '' @ meta_ht_path a @ '' ''
     @ ''--out-allele-data-ht '' @ allele_data_ht_path a @ '' ''
     @ ''--out-qc-ac-ht '' @ qc_ac_ht_path a @ '' ''
     @ (if truthy_str (ped_file a)
        then ''--out-fam-stats-ht '' @ str_opt (fam_stats_ht_path a) @ '' '' else [])
     @ (if truthy_str (ped_file a) then ''--fam-file '' @ str_opt (ped_file a) @ '' '' else [])
     @ ''--bucket '' @ work_bucket a @ '' ''
     @ ''--n-partitions '' @ str_int (scatter_count a * 25)"

definition generate_freq_data_cmd :: "env \<Rightarrow> qc_args \<Rightarrow> string" where
  "generate_freq_data_cmd e a =
     SCRIPTS_DIR e @ ''/generate_freq_data.py --overwrite ''
     @ ''--mt '' @ raw_combined_mt_path a @ '' ''
     @ ''--hard-filtered-samples-ht '' @ hard_filter_ht_path a @ '' ''
     @ ''--meta-ht '' @ meta_ht_path a @ '' ''
     @ ''--out-ht '' @ freq_ht_path a @ '' ''
     @ ''--bucket '' @ work_bucket a @ '' ''"

definition create_rf_annotations_cmd :: "env \<Rightarrow> qc_args \<Rightarrow> string" where
  "create_rf_annotations_cmd e a =
     SCRIPTS_DIR e @ ''/create_rf_annotations.py --overwrite ''
     @ ''--info-split-ht '' @ info_split_ht_path a @ '' ''
     @ ''--freq-ht '' @ freq_ht_path a @ '' ''
     @ (if truthy_str (fam_stats_ht_path a)
        then ''--fam-stats-ht '' @ str_opt (fam_stats_ht_path a) @ '' '' else [])
     @ ''--allele-data-ht '' @ allele_data_ht_path a @ '' ''
     @ ''--qc-ac-ht '' @ qc_ac_ht_path a @ '' ''
     @ ''--bucket '' @ work_bucket a @ '' ''
     @ ''--use-adj-genotypes ''
     @ ''--out-ht '' @ rf_annotations_ht_path a @ '' ''
     @ ''--n-partitions '' @ str_int (scatter_count a * 25)"

definition random_forest_cmd :: "env \<Rightarrow> qc_args \<Rightarrow> string" where
  "random_forest_cmd e a =
     SCRIPTS_DIR e @ ''/random_forest.py --overwrite ''
     @ ''--annotations-ht '' @ rf_annotations_ht_path a @ '' ''
     @ ''--bucket '' @ work_bucket a @ '' ''
     @ ''--use-adj-genotypes ''
     @ ''--out-results-ht '' @ rf_result_ht_path a @ '' ''
     @ ''--out-model-id '' @ rf_model_id e @ '' ''"

definition make_finalised_mt_cmd :: "env \<Rightarrow> qc_args \<Rightarrow> string \<Rightarrow> string" where
  "make_finalised_mt_cmd e a final_filter_ht_path =
     SCRIPTS_DIR e @ ''/make_finalised_mt.py --overwrite ''
     @ ''--mt '' @ raw_combined_mt_path a @ '' ''
     @ ''--final-filter-ht '' @ final_filter_ht_path @ '' ''
     @ ''--freq-ht '' @ freq_ht_path a @ '' ''
     @ ''--info-ht '' @ info_split_ht_path a @ '' ''
     @ ''--out-mt '' @ out_filtered_combined_mt_path a @ '' ''
     @ ''--meta-ht '' @ meta_ht_path a @ '' ''"

definition release_vcf_prepare_ht_cmd :: "env \<Rightarrow> qc_args \<Rightarrow> string" where
  "release_vcf_prepare_ht_cmd e a =
     SCRIPTS_DIR e @ ''/release_vcf_prepare_ht.py ''
     @ ''--mt '' @ out_filtered_combined_mt_path a @ '' ''
     @ ''--out-ht '' @ export_ht_path a @ '' ''
     @ ''--out-vcf-header-txt '' @ export_vcf_header_txt a"

definition release_vcf_export_chrom_cmd :: "env \<Rightarrow> qc_args \<Rightarrow> string \<Rightarrow> string \<Rightarrow> string" where
  "release_vcf_export_chrom_cmd e a vcf_path chrom =
     SCRIPTS_DIR e @ ''/release_vcf_export_chrom.py ''
     @ ''--ht '' @ export_ht_path a @ '' ''
     @ ''--vcf-header-txt '' @ export_vcf_header_txt a @ '' ''
     @ ''--out-vcf '' @ vcf_path @ '' ''
     @ ''--name '' @ project_name a @ '' ''
     @ ''--chromosome chr'' @ chrom"

subsection \<open>The recalibration sub-pipeline\<close>

text \<open>
  Modelled from the spec: \<^verbatim>\<open>add_vqsr_jobs\<close> (joint\_calling/jobs/vqsr.py) is not among
  the sources. By 4.4 of the specification it is an external multi-stage sub-pipeline,
  opaque to the graph builder, that depends on the upstream dependencies and hands back
  one stage for the rest of the graph to depend on. It is one EXECUTED stage here, named
  after the placeholder \<^verbatim>\<open>AS-VQSR [reuse]\<close> that stands for it, with an opaque command.
\<close>

definition add_vqsr_jobs ::
  "string \<Rightarrow> string \<Rightarrow> string \<Rightarrow> int \<Rightarrow> string \<Rightarrow> string \<Rightarrow> nat list \<Rightarrow> (string \<times> string) list
     \<Rightarrow> int \<Rightarrow> string \<Rightarrow> bool \<Rightarrow> batch \<Rightarrow> nat \<times> batch" where
  "add_vqsr_jobs combined_mt_path hard_filter meta gvcf_count bucket web upstream params
       scatter output_vcf_path ow b =
     (length (jobs b),
      b\<lparr>jobs := jobs b @
         [\<lparr>jname = ''AS-VQSR'', command = Some ''<AS-VQSR sub-pipeline>'',
           on_cluster = None, dependencies = set upstream\<rparr>]\<rparr>)"

subsection \<open>The stages, in the order the function builds them\<close>

text \<open>Lines 63 to 79: \<^verbatim>\<open>info_job\<close>. The edges to \<^verbatim>\<open>depends_on\<close> are added after the
  \<^verbatim>\<open>if\<close>/\<^verbatim>\<open>else\<close>, in either form.\<close>

definition info_job_stage :: "env \<Rightarrow> qc_args \<Rightarrow> nat \<Rightarrow> batch \<Rightarrow> nat \<times> batch" where
  "info_job_stage e a cluster1 b =
     (let job_name = ''Var QC: generate info'';
          (info_job, b) =
            (if list_ex (\<lambda>fp. \<not> can_reuse e (Path fp) (overwrite a))
                  [info_ht_path a, info_split_ht_path a]
             then add_job cluster1 (generate_info_cmd e a) job_name b
             else new_job (job_name @ '' [reuse]'') b);
          b = (if truthy_list (depends_on a)
               then Job_depends_on info_job (or_empty (depends_on a)) b else b)
      in (info_job, b))"

text \<open>Lines 81 to 104: \<^verbatim>\<open>var_qc_anno_job\<close>.\<close>

definition var_qc_anno_job_stage :: "env \<Rightarrow> qc_args \<Rightarrow> nat \<Rightarrow> batch \<Rightarrow> nat \<times> batch" where
  "var_qc_anno_job_stage e a cluster2 b =
     (let job_name = ''Var QC: generate annotations'' in
      if list_ex (\<lambda>fp. \<not> can_reuse e (Path fp) (overwrite a))
           ([allele_data_ht_path a, qc_ac_ht_path a]
            @ (if truthy_str (fam_stats_ht_path a) then [str_opt (fam_stats_ht_path a)] else []))
      then (let (var_qc_anno_job, b) =
                  add_job cluster2 (generate_variant_qc_annotations_cmd e a) job_name b
            in (var_qc_anno_job,
                if truthy_list (depends_on a)
                then Job_depends_on var_qc_anno_job (or_empty (depends_on a)) b else b))
      else new_job (job_name @ '' [reuse]'') b)"

text \<open>Lines 106 to 121: \<^verbatim>\<open>freq_job\<close>.\<close>

definition freq_job_stage :: "env \<Rightarrow> qc_args \<Rightarrow> nat \<Rightarrow> batch \<Rightarrow> nat \<times> batch" where
  "freq_job_stage e a cluster3 b =
     (let job_name = ''Var QC: generate frequencies'' in
      if overwrite a \<or> \<not> file_exists e (freq_ht_path a)
      then (let (freq_job, b) = add_job cluster3 (generate_freq_data_cmd e a) job_name b
            in (freq_job,
                if truthy_list (depends_on a)
                then Job_depends_on freq_job (or_empty (depends_on a)) b else b))
      else new_job (job_name @ '' [reuse]'') b)"

text \<open>Lines 123 to 141: \<^verbatim>\<open>rf_anno_job\<close>.\<close>

definition rf_anno_job_stage ::
  "env \<Rightarrow> qc_args \<Rightarrow> nat \<Rightarrow> nat \<Rightarrow> nat \<Rightarrow> nat \<Rightarrow> batch \<Rightarrow> nat \<times> batch" where
  "rf_anno_job_stage e a cluster3 freq_job var_qc_anno_job info_job b =
     (let job_name = ''Var QC: create RF annotations'' in
      if overwrite a \<or> \<not> file_exists e (rf_annotations_ht_path a)
      then (let (rf_anno_job, b) = add_job cluster3 (create_rf_annotations_cmd e a) job_name b
            in (rf_anno_job, Job_depends_on rf_anno_job [freq_job, var_qc_anno_job, info_job] b))
      else new_job (job_name @ '' [reuse]'') b)"

text \<open>Lines 143 to 183: the branch \<^verbatim>\<open>run_rf\<close>. It returns \<^verbatim>\<open>eval_job\<close>,
  \<^verbatim>\<open>final_filter_ht_path\<close> and \<^verbatim>\<open>cluster\<close>, which the rest of the function reads.\<close>

definition rf_branch ::
  "env \<Rightarrow> qc_args \<Rightarrow> nat \<Rightarrow> nat \<Rightarrow> batch \<Rightarrow> (nat \<times> string \<times> nat) \<times> batch" where
  "rf_branch e a rf_anno_job freq_job b =
     (let (cluster, b) =
            get_cluster ''RF'' (scatter_count a) (is_test a) (Some [rf_anno_job]) True b;
          job_name = ''Random forest'';
          (rf_job, b) =
            (if overwrite a \<or> \<not> file_exists e (rf_result_ht_path a)
             then (let (rf_job, b) = add_job cluster (random_forest_cmd e a) job_name b
                   in (rf_job, Job_depends_on rf_job [rf_anno_job] b))
             else new_job (job_name @ '' [reuse]'') b);
          ((eval_job, final_filter_ht_path), b) =
            add_rf_eval_jobs e cluster (raw_combined_mt_path a) (info_split_ht_path a)
              (rf_result_ht_path a) (rf_annotations_ht_path a) (fam_stats_ht_path a)
              (freq_ht_path a) (rf_model_id e) (rf_bucket a) (overwrite a)
              (Some [rf_job, freq_job, rf_anno_job]) b
      in ((eval_job, final_filter_ht_path, cluster), b))"

text \<open>Lines 185 to 232: the branch \<^verbatim>\<open>not run_rf\<close>. \<^verbatim>\<open>rf_result_ht_path\<close> is still
  \<^verbatim>\<open>None\<close> here.\<close>

definition vqsr_branch ::
  "env \<Rightarrow> qc_args \<Rightarrow> nat \<Rightarrow> nat \<Rightarrow> batch \<Rightarrow> (nat \<times> string \<times> nat) \<times> batch" where
  "vqsr_branch e a rf_anno_job info_job b =
     (let (vqsr_vcf_job, b) =
            (if overwrite a \<or> \<not> file_exists e (vqsred_vcf_path a)
             then add_vqsr_jobs (raw_combined_mt_path a) (hard_filter_ht_path a) (meta_ht_path a)
                    (sample_count a) (vqsr_bucket a) (join (web_bucket a) ''vqsr'')
                    (or_empty (depends_on a)) (vqsr_params_d a) (scatter_count a)
                    (vqsred_vcf_path a) (overwrite a) b
             else new_job ''AS-VQSR [reuse]'' b);
          final_filter_ht_path = join (vqsr_bucket a) ''final-filter.ht'';
          (cluster, b) =
            get_cluster ''VQSR eval'' (scatter_count a) (is_test a)
              (Some [rf_anno_job, vqsr_vcf_job]) True b;
          (eval_job, b) =
            add_vqsr_eval_jobs e cluster (raw_combined_mt_path a) (rf_annotations_ht_path a)
              (info_split_ht_path a) (vqsred_vcf_path a) None (fam_stats_ht_path a)
              (freq_ht_path a) (vqsr_bucket a) (join (web_bucket a) ''vqsr'') (overwrite a)
              vqsr_vcf_job rf_anno_job final_filter_ht_path b;
          b = Job_depends_on eval_job [vqsr_vcf_job, rf_anno_job, info_job] b
      in ((eval_job, final_filter_ht_path, cluster), b))"

text \<open>Lines 234 to 248: \<^verbatim>\<open>final_mt_j\<close>.\<close>

definition final_mt_j_stage ::
  "env \<Rightarrow> qc_args \<Rightarrow> nat \<Rightarrow> nat \<Rightarrow> string \<Rightarrow> batch \<Rightarrow> nat \<times> batch" where
  "final_mt_j_stage e a cluster eval_job final_filter_ht_path b =
     (let job_name = ''Making final MT'' in
      if \<not> can_reuse e (Path (out_filtered_combined_mt_path a)) (overwrite a)
      then (let (final_mt_j, b) =
                  add_job cluster (make_finalised_mt_cmd e a final_filter_ht_path) job_name b
            in (final_mt_j, Job_depends_on final_mt_j [eval_job] b))
      else new_job (job_name @ '' [reuse]'') b)"

text \<open>Lines 250 to 264: \<^verbatim>\<open>final_ht_j\<close>. The edge to \<^verbatim>\<open>final_mt_j\<close> is added after
  the \<^verbatim>\<open>if\<close>/\<^verbatim>\<open>else\<close>, in either form.\<close>

definition final_ht_j_stage :: "env \<Rightarrow> qc_args \<Rightarrow> nat \<Rightarrow> nat \<Rightarrow> batch \<Rightarrow> nat \<times> batch" where
  "final_ht_j_stage e a cluster final_mt_j b =
     (let job_name = ''Making final VCF: prepare HT'';
          (final_ht_j, b) =
            (if \<not> can_reuse e (Paths [export_ht_path a, export_vcf_header_txt a]) (overwrite a)
             then add_job cluster (release_vcf_prepare_ht_cmd e a) job_name b
             else new_job (job_name @ '' [reuse]'') b)
      in (final_ht_j, Job_depends_on final_ht_j [final_mt_j] b))"

text \<open>Lines 266 to 285: the loop over the chromosomes. \<^verbatim>\<open>jobs\<close> is the list of handles
  collected so far; formatting the path pattern is the one step that can raise, and the
  jobs created before it stay in the batch.\<close>

fun export_loop ::
  "env \<Rightarrow> qc_args \<Rightarrow> nat \<Rightarrow> nat \<Rightarrow> string list \<Rightarrow> nat list \<Rightarrow> batch \<Rightarrow> (error + nat list) \<times> batch" where
  "export_loop e a cluster final_ht_j [] js b = (Inr js, b)"
| "export_loop e a cluster final_ht_j (chrom # rest) js b =
     (let job_name = ''Making final VCF: HT to VCF for chr'' @ chrom in
      case format_CHROM e (out_filtered_vcf_ptrn_path a) chrom of
        None \<Rightarrow> (Inl FormatError, b)
      | Some vcf_path \<Rightarrow>
          (let (j, b) =
                 (if \<not> can_reuse e (Paths [vcf_path]) (overwrite a)
                  then add_job cluster (release_vcf_export_chrom_cmd e a vcf_path chrom) job_name b
                  else new_job (job_name @ '' [reuse]'') b);
               js = js @ [j];
               b = Job_depends_on j [final_ht_j] b
           in export_loop e a cluster final_ht_j rest js b))"

subsection \<open>The function\<close>

definition add_variant_qc_jobs :: "env \<Rightarrow> qc_args \<Rightarrow> batch \<Rightarrow> (error + nat list) \<times> batch" where
  "add_variant_qc_jobs e a b =
     (let (cluster1, b) =
            get_cluster ''VarQC 1'' (scatter_count a) (is_test a) (depends_on a) False b;
          (cluster2, b) =
            get_cluster ''VarQC 2'' (scatter_count a) (is_test a) (depends_on a) False b;
          (cluster3, b) =
            get_cluster ''VarQC 3'' (scatter_count a) (is_test a) (depends_on a) True b;
          (info_job, b) = info_job_stage e a cluster1 b;
          (var_qc_anno_job, b) = var_qc_anno_job_stage e a cluster2 b;
          (freq_job, b) = freq_job_stage e a cluster3 b;
          (rf_anno_job, b) = rf_anno_job_stage e a cluster3 freq_job var_qc_anno_job info_job b;
          ((eval_job, final_filter_ht_path, cluster), b) =
            (if run_rf a then rf_branch e a rf_anno_job freq_job b
             else vqsr_branch e a rf_anno_job info_job b);
          (final_mt_j, b) = final_mt_j_stage e a cluster eval_job final_filter_ht_path b;
          (final_ht_j, b) = final_ht_j_stage e a cluster final_mt_j b
      in export_loop e a cluster final_ht_j chromosomes [] b)"

section \<open>Stage nodes\<close>

text \<open>
  The two forms in which the construction builds a stage: EXECUTED (submitted with its
  command, named \<open>name\<close>) and REUSED (a placeholder without command, named
  \<open>name [reuse]\<close>).
\<close>

definition node :: "string \<Rightarrow> bool \<Rightarrow> string \<Rightarrow> nat option \<Rightarrow> nat set \<Rightarrow> nat set \<Rightarrow> job" where
  "node name exec cmd cl deps_exec deps_reuse =
     (if exec
      then \<lparr>jname = name, command = Some cmd, on_cluster = cl, dependencies = deps_exec\<rparr>
      else \<lparr>jname = name @ '' [reuse]'', command = None, on_cluster = None, dependencies = deps_reuse\<rparr>)"

definition REUSED :: "job \<Rightarrow> bool" where
  "REUSED j = (command j = None)"

definition EXECUTED :: "job \<Rightarrow> bool" where
  "EXECUTED j = (command j \<noteq> None)"

section \<open>The graph that a call builds\<close>

definition reusable :: "env \<Rightarrow> qc_args \<Rightarrow> string list \<Rightarrow> bool" where
  "reusable e a targets = (\<not> overwrite a \<and> list_all (file_exists e) targets)"

definition upstream :: "qc_args \<Rightarrow> nat set" where
  "upstream a = set (or_empty (depends_on a))"

definition fam_targets :: "qc_args \<Rightarrow> string list" where
  "fam_targets a = (if truthy_str (ped_file a) then [join (work_bucket a) ''fam-stats.ht''] else [])"

definition formats_ok :: "env \<Rightarrow> qc_args \<Rightarrow> string \<Rightarrow> bool" where
  "formats_ok e a chrom = (format_CHROM e (out_filtered_vcf_ptrn_path a) chrom \<noteq> None)"

definition vcf_path :: "env \<Rightarrow> qc_args \<Rightarrow> string \<Rightarrow> string" where
  "vcf_path e a chrom = (case format_CHROM e (out_filtered_vcf_ptrn_path a) chrom of Some p \<Rightarrow> p | None \<Rightarrow> [])"

definition chrom_node :: "env \<Rightarrow> qc_args \<Rightarrow> nat \<Rightarrow> nat \<Rightarrow> string \<Rightarrow> job" where
  "chrom_node e a cl fh chrom =
     node (''Making final VCF: HT to VCF for chr'' @ chrom) (\<not> reusable e a [vcf_path e a chrom])
       (release_vcf_export_chrom_cmd e a (vcf_path e a chrom) chrom) (Some cl) {fh} {fh}"

definition qc_clusters :: "qc_args \<Rightarrow> nat \<Rightarrow> cluster list" where
  "qc_clusters a n =
     [\<lparr>cname = ''VarQC 1'', cscatter_count = scatter_count a, cis_test = is_test a,
       cdepends_on = depends_on a, clong = False\<rparr>,
      \<lparr>cname = ''VarQC 2'', cscatter_count = scatter_count a, cis_test = is_test a,
       cdepends_on = depends_on a, clong = False\<rparr>,
      \<lparr>cname = ''VarQC 3'', cscatter_count = scatter_count a, cis_test = is_test a,
       cdepends_on = depends_on a, clong = True\<rparr>,
      (if run_rf a
       then \<lparr>cname = ''RF'', cscatter_count = scatter_count a, cis_test = is_test a,
              cdepends_on = Some [n + 3], clong = True\<rparr>
       else \<lparr>cname = ''VQSR eval'', cscatter_count = scatter_count a, cis_test = is_test a,
              cdepends_on = Some [n + 3, n + 4], clong = True\<rparr>)]"

definition common_nodes :: "env \<Rightarrow> qc_args \<Rightarrow> nat \<Rightarrow> nat \<Rightarrow> job list" where
  "common_nodes e a n m =
     [node ''Var QC: generate info'' (\<not> reusable e a [info_ht_path a, info_split_ht_path a])
        (generate_info_cmd e a) (Some m) (upstream a) (upstream a),
      node ''Var QC: generate annotations''
        (\<not> reusable e a ([allele_data_ht_path a, qc_ac_ht_path a] @ fam_targets a))
        (generate_variant_qc_annotations_cmd e a) (Some (m + 1)) (upstream a) {},
      node ''Var QC: generate frequencies'' (\<not> reusable e a [freq_ht_path a])
        (generate_freq_data_cmd e a) (Some (m + 2)) (upstream a) {},
      node ''Var QC: create RF annotations'' (\<not> reusable e a [rf_annotations_ht_path a])
        (create_rf_annotations_cmd e a) (Some (m + 2)) {n + 2, n + 1, n} {}]"

definition rf_nodes :: "env \<Rightarrow> qc_args \<Rightarrow> nat \<Rightarrow> nat \<Rightarrow> job list" where
  "rf_nodes e a n m =
     [node ''Random forest'' (\<not> reusable e a [rf_result_ht_path a])
        (random_forest_cmd e a) (Some (m + 3)) {n + 3} {},
      node ''RF: evaluation'' (\<not> reusable e a [join (rf_bucket a) ''rf-score-bin.ht''])
        (rf_evaluation_cmd e (raw_combined_mt_path a) (rf_annotations_ht_path a)
           (info_split_ht_path a) (rf_result_ht_path a) (fam_stats_ht_path a) (rf_bucket a)
           (join (rf_bucket a) ''rf-score-bin.ht'') (join (rf_bucket a) ''rf-score-agg-bin.ht''))
        (Some (m + 3)) {n + 4, n + 2, n + 3} {},
      node ''RF: final filter'' (\<not> reusable e a [join (rf_bucket a) ''final-filter.ht''])
        (rf_final_filter_cmd e (join (rf_bucket a) ''final-filter.ht'') (rf_model_id e)
           (info_split_ht_path a) (freq_ht_path a) (join (rf_bucket a) ''rf-score-bin.ht'')
           (join (rf_bucket a) ''rf-score-agg-bin.ht'') (rf_bucket a))
        (Some (m + 3)) {n + 5} {}]"

definition vqsr_nodes :: "env \<Rightarrow> qc_args \<Rightarrow> nat \<Rightarrow> nat \<Rightarrow> job list" where
  "vqsr_nodes e a n m =
     [node ''AS-VQSR'' (\<not> reusable e a [vqsred_vcf_path a])
        ''<AS-VQSR sub-pipeline>'' None (upstream a) {},
      node ''AS-VQSR: load_vqsr''
        (\<not> reusable e a [join (vqsr_bucket a) ''vqsr-filters-split.ht''])
        (load_vqsr_cmd e (join (vqsr_bucket a) ''vqsr-filters-split.ht'') (vqsred_vcf_path a)
           (vqsr_bucket a))
        (Some (m + 3)) {n + 4} {},
      node ''AS-VQSR: evaluation''
        (\<not> reusable e a [join (vqsr_bucket a) ''vqsr-score-bin.ht'',
                          join (vqsr_bucket a) ''vqsr-score-agg-bin.ht''])
        (vqsr_evaluation_cmd e (raw_combined_mt_path a) (rf_annotations_ht_path a)
           (info_split_ht_path a) (fam_stats_ht_path a) None
           (join (vqsr_bucket a) ''vqsr-filters-split.ht'') (vqsr_bucket a)
           (join (vqsr_bucket a) ''vqsr-score-bin.ht'')
           (join (vqsr_bucket a) ''vqsr-score-agg-bin.ht''))
        (Some (m + 3)) {n + 5, n + 3} {},
      node ''AS-VQSR: final filter''
        (\<not> file_exists e (join (vqsr_bucket a) ''final-filter.ht''))
        (vqsr_final_filter_cmd e (join (vqsr_bucket a) ''final-filter.ht'')
           (join (vqsr_bucket a) ''vqsr-filters-split.ht'') ''vqsr_model'' (info_split_ht_path a)
           (freq_ht_path a) (join (vqsr_bucket a) ''vqsr-score-bin.ht'')
           (join (vqsr_bucket a) ''vqsr-score-agg-bin.ht'') (vqsr_bucket a))
        (Some (m + 3)) {n + 4, n + 3, n, n + 6} {n + 4, n + 3, n}]"

definition final_nodes :: "env \<Rightarrow> qc_args \<Rightarrow> nat \<Rightarrow> nat \<Rightarrow> string \<Rightarrow> job list" where
  "final_nodes e a k m ff =
     [node ''Making final MT'' (\<not> reusable e a [out_filtered_combined_mt_path a])
        (make_finalised_mt_cmd e a ff) (Some (m + 3)) {k} {},
      node ''Making final VCF: prepare HT''
        (\<not> reusable e a [export_ht_path a, export_vcf_header_txt a])
        (release_vcf_prepare_ht_cmd e a) (Some (m + 3)) {k + 1} {k + 1}]"

definition stage_nodes :: "env \<Rightarrow> qc_args \<Rightarrow> nat \<Rightarrow> nat \<Rightarrow> job list" where
  "stage_nodes e a n m =
     common_nodes e a n m @
     (if run_rf a
      then rf_nodes e a n m @ final_nodes e a (n + 6) m (join (rf_bucket a) ''final-filter.ht'')
      else vqsr_nodes e a n m @ final_nodes e a (n + 7) m (join (vqsr_bucket a) ''final-filter.ht''))"

definition final_ht_j :: "qc_args \<Rightarrow> nat \<Rightarrow> nat" where
  "final_ht_j a n = (if run_rf a then n + 8 else n + 9)"

definition graph :: "env \<Rightarrow> qc_args \<Rightarrow> batch \<Rightarrow> batch" where
  "graph e a b = snd (add_variant_qc_jobs e a b)"

definition created :: "env \<Rightarrow> qc_args \<Rightarrow> batch \<Rightarrow> job list" where
  "created e a b = drop (length (jobs b)) (jobs (graph e a b))"

definition named :: "string \<Rightarrow> job \<Rightarrow> bool" where
  "named name j = (jname j = name \<or> jname j = name @ '' [reuse]'')"

definition is_export_stage :: "job \<Rightarrow> bool" where
  "is_export_stage j = (take 35 (jname j) = ''Making final VCF: HT to VCF for chr'')"

text \<open>The stages of the two filtering branches, by name.\<close>

definition vqsr_branch_stage :: "job \<Rightarrow> bool" where
  "vqsr_branch_stage j =
     (named ''AS-VQSR'' j \<or> named ''AS-VQSR: load_vqsr'' j \<or> named ''AS-VQSR: evaluation'' j \<or>
      named ''AS-VQSR: final filter'' j)"

definition rf_branch_stage :: "job \<Rightarrow> bool" where
  "rf_branch_stage j =
     (named ''Random forest'' j \<or> named ''RF: evaluation'' j \<or> named ''RF: final filter'' j)"

text \<open>The paths that the reuse check of each stage lists, in the order in which the stages
  are created.\<close>

definition stage_targets :: "env \<Rightarrow> qc_args \<Rightarrow> string list list" where
  "stage_targets e a =
     [[info_ht_path a, info_split_ht_path a],
      [allele_data_ht_path a, qc_ac_ht_path a] @ fam_targets a,
      [freq_ht_path a],
      [rf_annotations_ht_path a]]
     @ (if run_rf a
        then [[rf_result_ht_path a],
              [join (rf_bucket a) ''rf-score-bin.ht''],
              [join (rf_bucket a) ''final-filter.ht'']]
        else [[vqsred_vcf_path a],
              [join (vqsr_bucket a) ''vqsr-filters-split.ht''],
              [join (vqsr_bucket a) ''vqsr-score-bin.ht'',
               join (vqsr_bucket a) ''vqsr-score-agg-bin.ht''],
              [join (vqsr_bucket a) ''final-filter.ht'']])
     @ [[out_filtered_combined_mt_path a],
        [export_ht_path a, export_vcf_header_txt a]]
     @ map (\<lambda>chrom. [vcf_path e a chrom]) (takeWhile (formats_ok e a) chromosomes)"

text \<open>The edges that a stage keeps when it is built in REUSED form; \<open>n\<close> is the number of
  jobs in the batch before the call, so that \<open>n\<close>, \<open>n + 3\<close> and \<open>n + 4\<close> are the info, the
  RF-annotation and the recalibration-pipeline stage.\<close>

definition reused_edges :: "qc_args \<Rightarrow> nat \<Rightarrow> job \<Rightarrow> nat set" where
  "reused_edges a n j =
     (if named ''Var QC: generate info'' j then upstream a
      else if named ''AS-VQSR: final filter'' j then {n + 4, n + 3, n}
      else if named ''Making final VCF: prepare HT'' j then {final_ht_j a n - 1}
      else if is_export_stage j then {final_ht_j a n}
      else {})"

definition keeps_reused_edges :: "qc_args \<Rightarrow> nat \<Rightarrow> job \<Rightarrow> bool" where
  "keeps_reused_edges a n j = (REUSED j \<longrightarrow> dependencies j = reused_edges a n j)"

section \<open>\<^verbatim>\<open>scripts/final_filter.py\<close>\<close>

text \<open>
  The configuration errors are the five \<^verbatim>\<open>ValueError\<close>s that
  \<^verbatim>\<open>generate_final_filter_ht\<close> raises on its cutoff parameters (lines 69 to 94).
\<close>

definition configuration_error :: "error \<Rightarrow> bool" where
  "configuration_error err =
     (err = SnpCutoffsMutuallyExclusive \<or> err = IndelCutoffsMutuallyExclusive \<or>
      err = SnpCutoffMissing \<or> err = IndelCutoffMissing \<or>
      err = BinCutoffWithoutAggregatedBins)"

text \<open>
  \<^verbatim>\<open>generate_final_filter_ht\<close>, lines 24 to 229. The bin cutoffs are integers; the score
  cutoffs are floats, of which the checks only test whether they are \<^verbatim>\<open>None\<close>, so their
  type is left open, as are the types of the aggregated-bin table and of the result. What
  follows the checks (lines 96 to 229) is work on Hail tables: it is the parameter
  \<open>tables\<close>, which gives the final table or the message of the error it raises
  (a score cutoff out of range, a missing score).
\<close>

definition generate_final_filter_ht ::
  "(int option \<Rightarrow> int option \<Rightarrow> 's option \<Rightarrow> 's option \<Rightarrow> 't option \<Rightarrow> string option \<Rightarrow> string + 'h)
     \<Rightarrow> int option \<Rightarrow> int option \<Rightarrow> 's option \<Rightarrow> 's option \<Rightarrow> 't option \<Rightarrow> string option
     \<Rightarrow> error + 'h" where
  "generate_final_filter_ht tables snp_bin_cutoff indel_bin_cutoff snp_score_cutoff
       indel_score_cutoff aggregated_bin_ht bin_id =
     (if snp_bin_cutoff \<noteq> None \<and> snp_score_cutoff \<noteq> None then Inl SnpCutoffsMutuallyExclusive
      else if indel_bin_cutoff \<noteq> None \<and> indel_score_cutoff \<noteq> None
        then Inl IndelCutoffsMutuallyExclusive
      else if snp_bin_cutoff = None \<and> snp_score_cutoff = None then Inl SnpCutoffMissing
      else if indel_bin_cutoff = None \<and> indel_score_cutoff = None then Inl IndelCutoffMissing
      else if (snp_bin_cutoff \<noteq> None \<or> indel_bin_cutoff \<noteq> None)
              \<and> (aggregated_bin_ht = None \<or> bin_id = None)
        then Inl BinCutoffWithoutAggregatedBins
      else (case tables snp_bin_cutoff indel_bin_cutoff snp_score_cutoff indel_score_cutoff
                   aggregated_bin_ht bin_id of
              Inl msg \<Rightarrow> Inl (TableError msg)
            | Inr ht \<Rightarrow> Inr ht))"

text \<open>
  The cutoff settings that the script declares at module level, lines 232 to 239.
\<close>

definition snp_bin_cutoff :: "int option" where
  "snp_bin_cutoff = None"

definition snp_score_cutoff :: "'s option" where
  "snp_score_cutoff = None"

definition indel_bin_cutoff :: "int option" where
  "indel_bin_cutoff = None"

definition indel_score_cutoff :: "'s option" where
  "indel_score_cutoff = None"

text \<open>
  The names that the module \<^verbatim>\<open>final_filter.py\<close> binds at its top level: its imports
  (lines 1 to 17), \<^verbatim>\<open>logger\<close> (line 20), \<^verbatim>\<open>generate_final_filter_ht\<close> (line 24), the
  settings of lines 232 to 241 and \<^verbatim>\<open>main\<close> (line 305).
\<close>

definition module_names :: "string list" where
  "module_names =
     [''argparse'', ''logging'', ''sys'', ''Optional'', ''hl'', ''click'',
      ''telomeres_and_centromeres'', ''file_exists'', ''add_filters_expr'',
      ''slack_notifications'', ''INBREEDING_COEFF_HARD_CUTOFF'', ''get_validation_callback'',
      ''utils'', ''_version'', ''logger'', ''generate_final_filter_ht'', ''snp_bin_cutoff'',
      ''snp_score_cutoff'', ''indel_bin_cutoff'', ''indel_score_cutoff'',
      ''filter_centromere_telomere'', ''main'']"

text \<open>
  A name that a function body reads and never assigns is looked up, when the read is
  executed, among the names of the module and then among Python's builtins; a name found in
  neither raises \<^verbatim>\<open>NameError\<close>. \<open>reads names\<close> is the outcome of reading the given global
  names in this order. The builtins are left out: \<^verbatim>\<open>main\<close> reads none of them, and none of
  them has one of the names below.
\<close>

definition reads :: "string list \<Rightarrow> error + unit" where
  "reads names =
     (case filter (\<lambda>name. name \<notin> set module_names) names of
        [] \<Rightarrow> Inr ()
      | name # others \<Rightarrow> Inl (NameError name))"

text \<open>
  \<^verbatim>\<open>main\<close>, lines 305 to 392: the body of the function, as a call of it runs. Line 318
  calls \<^verbatim>\<open>utils.init_hail\<close>, which is not in this file: \<open>init_hail\<close> is its outcome.
  Line 320 then reads the name \<^verbatim>\<open>get_score_bins\<close> and line 321 the name \<^verbatim>\<open>args\<close>. The
  body assigns neither (they are not local), and the module binds neither; the same holds
  of \<^verbatim>\<open>get_info\<close> (line 324), \<^verbatim>\<open>get_freq\<close> (line 330), \<^verbatim>\<open>get_vqsr_filters\<close> (line 354)
  and \<^verbatim>\<open>final_filter\<close> (line 389).

  What these names would give has no counterpart in the file, so it is a parameter of the
  lines behind the reads: \<open>loaded\<close> is the outcome of the work on the tables of lines 320
  to 332 (the score table, filtered and annotated, or the message of the error raised on the
  way; the reads of these lines are put before it), \<open>aggregated_path\<close> gives
  \<^verbatim>\<open>get_score_bins(args.model_id, aggregated=True).path\<close>, \<open>aggregated_ht\<close> is the table
  read from it, and \<open>args_model_id\<close> and the four cutoffs are the attributes of \<^verbatim>\<open>args\<close>
  of these names. Lines 358 to 392 annotate and write the table that
  \<^verbatim>\<open>generate_final_filter_ht\<close> returns.
\<close>

definition main ::
  "error + 'd \<Rightarrow> (string \<Rightarrow> bool) \<Rightarrow> (string \<Rightarrow> string) \<Rightarrow> string + 'h0 \<Rightarrow> 't
     \<Rightarrow> ('h0 \<Rightarrow> int option \<Rightarrow> int option \<Rightarrow> 's option \<Rightarrow> 's option \<Rightarrow> 't option \<Rightarrow> string option
          \<Rightarrow> string + 'h)
     \<Rightarrow> string \<Rightarrow> int option \<Rightarrow> int option \<Rightarrow> 's option \<Rightarrow> 's option \<Rightarrow> error + 'h" where
  "main init_hail exists aggregated_path loaded aggregated_ht tables args_model_id
       args_snp_bin_cutoff args_indel_bin_cutoff args_snp_score_cutoff args_indel_score_cutoff =
     (case reads [''utils''] of
        Inl err \<Rightarrow> Inl err
      | Inr u \<Rightarrow>
     (case init_hail of
        Inl err \<Rightarrow> Inl err
      | Inr local_tmp_dir \<Rightarrow>
     (case reads [''get_score_bins'', ''args'', ''hl'', ''telomeres_and_centromeres'',
                  ''get_info'', ''args'', ''get_freq'', ''get_score_bins'', ''args'',
                  ''file_exists''] of
        Inl err \<Rightarrow> Inl err
      | Inr u \<Rightarrow>
     (case loaded of
        Inl msg \<Rightarrow> Inl (TableError msg)
      | Inr ht \<Rightarrow>
          (let aggregated_bin_path = aggregated_path args_model_id in
           if \<not> exists aggregated_bin_path
           then (case reads [''sys'', ''args''] of
                   Inl err \<Rightarrow> Inl err
                 | Inr u \<Rightarrow>
                     Inl (SysExit (''Could not find binned HT for model: '' @ args_model_id
                       @ '' ('' @ aggregated_bin_path
                       @ ''). Please run create_ranked_scores.py for that hash.'')))
           else
             (case reads [''get_score_bins'', ''args'', ''generate_final_filter_ht'', ''args'',
                          ''get_vqsr_filters''] of
                Inl err \<Rightarrow> Inl err
              | Inr u \<Rightarrow>
             (case generate_final_filter_ht (tables ht) args_snp_bin_cutoff
                     args_indel_bin_cutoff args_snp_score_cutoff args_indel_score_cutoff
                     (Some aggregated_ht) (Some ''bin'') of
                Inl err \<Rightarrow> Inl err
              | Inr final_ht \<Rightarrow>
             (case reads [''args'', ''final_filter''] of
                Inl err \<Rightarrow> Inl err
              | Inr u \<Rightarrow> Inr final_ht))))))))"

text \<open>What \<open>exactly one\<close> of the two cutoffs of a variant class means.\<close>

definition exactly_one :: "'a option \<Rightarrow> 'b option \<Rightarrow> bool" where
  "exactly_one bin_cutoff score_cutoff = ((bin_cutoff = None) \<noteq> (score_cutoff = None))"

definition raises_configuration_error :: "error + 'h \<Rightarrow> bool" where
  "raises_configuration_error r = (case r of Inl err \<Rightarrow> configuration_error err | Inr ht \<Rightarrow> False)"

section \<open>A concrete run\<close>

text \<open>An environment in which no artifact exists yet and every path pattern formats, the
  arguments of a small run with the random-forest branch, and an empty batch.\<close>

definition env0 :: env where
  "env0 = \<lparr>SCRIPTS_DIR = ''scripts'', file_exists = (\<lambda>p. False),
            uuid4 = ''0f8fad5b-d9cb-469f-a165-70867728950e'',
            format_CHROM = (\<lambda>ptrn chrom. Some (''gs://out/chr'' @ chrom @ ''.vcf.bgz''))\<rparr>"

definition args0 :: qc_args where
  "args0 = \<lparr>work_bucket = ''gs://work'', web_bucket = ''gs://web'',
             raw_combined_mt_path = ''gs://work/raw.mt'',
             hard_filter_ht_path = ''gs://work/hard-filter.ht'',
             meta_ht_path = ''gs://work/meta.ht'',
             out_filtered_combined_mt_path = ''gs://out/filtered.mt'',
             out_filtered_vcf_ptrn_path = ''gs://out/chr{CHROM}.vcf.bgz'',
             sample_count = 10, ped_file = None, overwrite = False, vqsr_params_d = [],
             scatter_count = 2, is_test = True, project_name = ''proj'',
             depends_on = None, run_rf = True\<rparr>"

definition batch0 :: batch where
  "batch0 = \<lparr>jobs = [], clusters = []\<rparr>"

text \<open>Three more stores for the concrete run: one in which only the final-filter table of
  the recalibration branch exists, one in which every artifact exists, and one in which only
  the per-variant score-bin table of the random-forest branch exists; and the arguments of a
  run of the recalibration branch with the overwrite flag set.\<close>

definition env_ff :: env where
  "env_ff = env0\<lparr>file_exists := (\<lambda>p. p = ''gs://work/vqsr/final-filter.ht'')\<rparr>"

definition env_all :: env where
  "env_all = env0\<lparr>file_exists := (\<lambda>p. True)\<rparr>"

definition env_bins :: env where
  "env_bins = env0\<lparr>file_exists := (\<lambda>p. p = ''gs://work/rf/rf-score-bin.ht'')\<rparr>"

definition args_ow :: qc_args where
  "args_ow = args0\<lparr>overwrite := True, run_rf := False\<rparr>"

text \<open>A run of the script \<^verbatim>\<open>final_filter.py\<close> in which the work on the tables succeeds;
  the score cutoffs are given as integers here.\<close>

definition tables0 ::
  "unit \<Rightarrow> int option \<Rightarrow> int option \<Rightarrow> int option \<Rightarrow> int option \<Rightarrow> unit option \<Rightarrow> string option
     \<Rightarrow> string + unit" where
  "tables0 ht snp_bin indel_bin snp_score indel_score agg bin_id = Inr ()"

section \<open>Lemmas on the batch operations\<close>

lemma add_rf_eval_jobs_eq:
  "add_rf_eval_jobs e cl mt info rfres rfanno fam freq mid wb ow deps b =
     ((length (jobs b) + 1, join wb ''final-filter.ht''),
      b\<lparr>jobs := jobs b @
        [node ''RF: evaluation'' (ow \<or> \<not> file_exists e (join wb ''rf-score-bin.ht''))
           (rf_evaluation_cmd e mt rfanno info rfres fam wb (join wb ''rf-score-bin.ht'')
              (join wb ''rf-score-agg-bin.ht''))
           (Some cl) (set (or_empty deps)) {},
         node ''RF: final filter'' (ow \<or> \<not> file_exists e (join wb ''final-filter.ht''))
           (rf_final_filter_cmd e (join wb ''final-filter.ht'') mid info freq
              (join wb ''rf-score-bin.ht'') (join wb ''rf-score-agg-bin.ht'') wb)
           (Some cl) {length (jobs b)} {}]\<rparr>)"
  by (simp add: add_rf_eval_jobs_def Let_def new_job_def add_job_def Job_depends_on_def node_def list_update_append nth_append
        truthy_list_def or_empty_def split: option.splits)

lemma add_vqsr_eval_jobs_eq:
  "add_vqsr_eval_jobs e cl mt rfanno info vcf rfres fam freq wb ab ow vj rj out b =
     (length (jobs b) + 2,
      b\<lparr>jobs := jobs b @
        [node ''AS-VQSR: load_vqsr'' (ow \<or> \<not> file_exists e (join wb ''vqsr-filters-split.ht''))
           (load_vqsr_cmd e (join wb ''vqsr-filters-split.ht'') vcf wb)
           (Some cl) {vj} {},
         node ''AS-VQSR: evaluation''
           (ow \<or> \<not> file_exists e (join wb ''vqsr-score-bin.ht'')
               \<or> \<not> file_exists e (join wb ''vqsr-score-agg-bin.ht''))
           (vqsr_evaluation_cmd e mt rfanno info fam rfres (join wb ''vqsr-filters-split.ht'') wb
              (join wb ''vqsr-score-bin.ht'') (join wb ''vqsr-score-agg-bin.ht''))
           (Some cl) {length (jobs b), rj} {},
         node ''AS-VQSR: final filter'' (\<not> file_exists e out)
           (vqsr_final_filter_cmd e out (join wb ''vqsr-filters-split.ht'') ''vqsr_model'' info freq
              (join wb ''vqsr-score-bin.ht'') (join wb ''vqsr-score-agg-bin.ht'') wb)
           (Some cl) {length (jobs b) + 1} {}]\<rparr>)"
  by (simp add: add_vqsr_eval_jobs_def Let_def new_job_def add_job_def Job_depends_on_def node_def list_update_append nth_append)

lemma join_nonempty: "join a (c # cs) \<noteq> []"
  by (simp add: join_def)

lemmas unfold_ops = Let_def new_job_def add_job_def Job_depends_on_def node_def
  list_update_append nth_append

lemma info_job_stage_eq:
  "info_job_stage e a c b =
     (length (jobs b),
      b\<lparr>jobs := jobs b @
        [node ''Var QC: generate info'' (\<not> reusable e a [info_ht_path a, info_split_ht_path a])
           (generate_info_cmd e a) (Some c) (upstream a) (upstream a)]\<rparr>)"
  by (simp add: info_job_stage_def unfold_ops can_reuse_def reusable_def upstream_def
        truthy_list_def or_empty_def split: option.splits)

lemma var_qc_anno_job_stage_eq:
  "var_qc_anno_job_stage e a c b =
     (length (jobs b),
      b\<lparr>jobs := jobs b @
        [node ''Var QC: generate annotations''
           (\<not> reusable e a ([allele_data_ht_path a, qc_ac_ht_path a] @ fam_targets a))
           (generate_variant_qc_annotations_cmd e a) (Some c) (upstream a) {}]\<rparr>)"
  by (simp add: var_qc_anno_job_stage_def unfold_ops can_reuse_def reusable_def upstream_def
        fam_targets_def fam_stats_ht_path_def truthy_str_def str_opt_def join_nonempty
        truthy_list_def or_empty_def split: option.splits)

lemma freq_job_stage_eq:
  "freq_job_stage e a c b =
     (length (jobs b),
      b\<lparr>jobs := jobs b @
        [node ''Var QC: generate frequencies'' (\<not> reusable e a [freq_ht_path a])
           (generate_freq_data_cmd e a) (Some c) (upstream a) {}]\<rparr>)"
  by (simp add: freq_job_stage_def unfold_ops reusable_def upstream_def
        truthy_list_def or_empty_def split: option.splits)

lemma rf_anno_job_stage_eq:
  "rf_anno_job_stage e a c fj vj ij b =
     (length (jobs b),
      b\<lparr>jobs := jobs b @
        [node ''Var QC: create RF annotations'' (\<not> reusable e a [rf_annotations_ht_path a])
           (create_rf_annotations_cmd e a) (Some c) {fj, vj, ij} {}]\<rparr>)"
  by (simp add: rf_anno_job_stage_def unfold_ops reusable_def)

lemma final_mt_j_stage_eq:
  "final_mt_j_stage e a c ej ff b =
     (length (jobs b),
      b\<lparr>jobs := jobs b @
        [node ''Making final MT'' (\<not> reusable e a [out_filtered_combined_mt_path a])
           (make_finalised_mt_cmd e a ff) (Some c) {ej} {}]\<rparr>)"
  by (simp add: final_mt_j_stage_def unfold_ops reusable_def can_reuse_def)

lemma final_ht_j_stage_eq:
  "final_ht_j_stage e a c mj b =
     (length (jobs b),
      b\<lparr>jobs := jobs b @
        [node ''Making final VCF: prepare HT''
           (\<not> reusable e a [export_ht_path a, export_vcf_header_txt a])
           (release_vcf_prepare_ht_cmd e a) (Some c) {mj} {mj}]\<rparr>)"
  by (simp add: final_ht_j_stage_def unfold_ops reusable_def can_reuse_def)

lemma upt_head: "[n..<Suc (n + k)] = n # [Suc n..<Suc (n + k)]"
  by (simp add: upt_conv_Cons)

lemma export_loop_eq:
  "export_loop e a cl fh cs js b =
     (if list_all (formats_ok e a) cs
      then Inr (js @ [length (jobs b)..<length (jobs b) + length cs]) else Inl FormatError,
      b\<lparr>jobs := jobs b @ map (chrom_node e a cl fh) (takeWhile (formats_ok e a) cs)\<rparr>)"
proof (induction cs arbitrary: js b)
  case Nil
  show ?case by simp
next
  case (Cons c cs)
  obtain r where r: "r = format_CHROM e (out_filtered_vcf_ptrn_path a) c"
    by simp
  show ?case
  proof (cases r)
    case None
    with r show ?thesis by (simp add: formats_ok_def)
  next
    case (Some p)
    with r have p: "format_CHROM e (out_filtered_vcf_ptrn_path a) c = Some p"
      by simp
    then show ?thesis
      by (simp add: Cons.IH formats_ok_def vcf_path_def chrom_node_def unfold_ops reusable_def
            can_reuse_def upt_head del: upt_Suc)
  qed
qed

lemma rf_branch_eq:
  "rf_branch e a raj fj b =
     ((length (jobs b) + 2, join (rf_bucket a) ''final-filter.ht'', length (clusters b)),
      b\<lparr>clusters := clusters b @
          [\<lparr>cname = ''RF'', cscatter_count = scatter_count a, cis_test = is_test a,
            cdepends_on = Some [raj], clong = True\<rparr>],
        jobs := jobs b @
          [node ''Random forest'' (\<not> reusable e a [rf_result_ht_path a])
             (random_forest_cmd e a) (Some (length (clusters b))) {raj} {},
           node ''RF: evaluation'' (\<not> reusable e a [join (rf_bucket a) ''rf-score-bin.ht''])
             (rf_evaluation_cmd e (raw_combined_mt_path a) (rf_annotations_ht_path a)
                (info_split_ht_path a) (rf_result_ht_path a) (fam_stats_ht_path a) (rf_bucket a)
                (join (rf_bucket a) ''rf-score-bin.ht'') (join (rf_bucket a) ''rf-score-agg-bin.ht''))
             (Some (length (clusters b))) {length (jobs b), fj, raj} {},
           node ''RF: final filter'' (\<not> reusable e a [join (rf_bucket a) ''final-filter.ht''])
             (rf_final_filter_cmd e (join (rf_bucket a) ''final-filter.ht'') (rf_model_id e)
                (info_split_ht_path a) (freq_ht_path a) (join (rf_bucket a) ''rf-score-bin.ht'')
                (join (rf_bucket a) ''rf-score-agg-bin.ht'') (rf_bucket a))
             (Some (length (clusters b))) {length (jobs b) + 1} {}]\<rparr>)"
  by (simp add: rf_branch_def get_cluster_def add_rf_eval_jobs_def unfold_ops reusable_def
        truthy_list_def or_empty_def)

lemma vqsr_branch_eq:
  "vqsr_branch e a raj ij b =
     ((length (jobs b) + 3, join (vqsr_bucket a) ''final-filter.ht'', length (clusters b)),
      b\<lparr>clusters := clusters b @
          [\<lparr>cname = ''VQSR eval'', cscatter_count = scatter_count a, cis_test = is_test a,
            cdepends_on = Some [raj, length (jobs b)], clong = True\<rparr>],
        jobs := jobs b @
          [node ''AS-VQSR'' (\<not> reusable e a [vqsred_vcf_path a])
             ''<AS-VQSR sub-pipeline>'' None (upstream a) {},
           node ''AS-VQSR: load_vqsr''
             (\<not> reusable e a [join (vqsr_bucket a) ''vqsr-filters-split.ht''])
             (load_vqsr_cmd e (join (vqsr_bucket a) ''vqsr-filters-split.ht'') (vqsred_vcf_path a)
                (vqsr_bucket a))
             (Some (length (clusters b))) {length (jobs b)} {},
           node ''AS-VQSR: evaluation''
             (\<not> reusable e a [join (vqsr_bucket a) ''vqsr-score-bin.ht'',
                               join (vqsr_bucket a) ''vqsr-score-agg-bin.ht''])
             (vqsr_evaluation_cmd e (raw_combined_mt_path a) (rf_annotations_ht_path a)
                (info_split_ht_path a) (fam_stats_ht_path a) None
                (join (vqsr_bucket a) ''vqsr-filters-split.ht'') (vqsr_bucket a)
                (join (vqsr_bucket a) ''vqsr-score-bin.ht'')
                (join (vqsr_bucket a) ''vqsr-score-agg-bin.ht''))
             (Some (length (clusters b))) {length (jobs b) + 1, raj} {},
           node ''AS-VQSR: final filter''
             (\<not> file_exists e (join (vqsr_bucket a) ''final-filter.ht''))
             (vqsr_final_filter_cmd e (join (vqsr_bucket a) ''final-filter.ht'')
                (join (vqsr_bucket a) ''vqsr-filters-split.ht'') ''vqsr_model'' (info_split_ht_path a)
                (freq_ht_path a) (join (vqsr_bucket a) ''vqsr-score-bin.ht'')
                (join (vqsr_bucket a) ''vqsr-score-agg-bin.ht'') (vqsr_bucket a))
             (Some (length (clusters b)))
             {length (jobs b), raj, ij, length (jobs b) + 2} {length (jobs b), raj, ij}]\<rparr>)"
  by (simp add: vqsr_branch_def get_cluster_def add_vqsr_eval_jobs_def add_vqsr_jobs_def
        unfold_ops reusable_def upstream_def)

lemmas stage_eqs = info_job_stage_eq var_qc_anno_job_stage_eq freq_job_stage_eq
  rf_anno_job_stage_eq rf_branch_eq vqsr_branch_eq final_mt_j_stage_eq final_ht_j_stage_eq
  export_loop_eq

lemmas node_lists = qc_clusters_def stage_nodes_def common_nodes_def rf_nodes_def vqsr_nodes_def
  final_nodes_def final_ht_j_def

lemma add_variant_qc_jobs_rf:
  assumes "run_rf a"
  shows "add_variant_qc_jobs e a b =
     (if list_all (formats_ok e a) chromosomes
      then Inr [final_ht_j a (length (jobs b)) + 1..<
                final_ht_j a (length (jobs b)) + 1 + length chromosomes]
      else Inl FormatError,
      b\<lparr>clusters := clusters b @ qc_clusters a (length (jobs b)),
        jobs := jobs b @ stage_nodes e a (length (jobs b)) (length (clusters b)) @
          map (chrom_node e a (length (clusters b) + 3) (final_ht_j a (length (jobs b))))
            (takeWhile (formats_ok e a) chromosomes)\<rparr>)"
  using assms
  by (simp add: add_variant_qc_jobs_def get_cluster_def Let_def stage_eqs node_lists
        eval_nat_numeral)

lemma add_variant_qc_jobs_vqsr:
  assumes "\<not> run_rf a"
  shows "add_variant_qc_jobs e a b =
     (if list_all (formats_ok e a) chromosomes
      then Inr [final_ht_j a (length (jobs b)) + 1..<
                final_ht_j a (length (jobs b)) + 1 + length chromosomes]
      else Inl FormatError,
      b\<lparr>clusters := clusters b @ qc_clusters a (length (jobs b)),
        jobs := jobs b @ stage_nodes e a (length (jobs b)) (length (clusters b)) @
          map (chrom_node e a (length (clusters b) + 3) (final_ht_j a (length (jobs b))))
            (takeWhile (formats_ok e a) chromosomes)\<rparr>)"
  using assms
  by (simp add: add_variant_qc_jobs_def get_cluster_def Let_def stage_eqs node_lists
        eval_nat_numeral)

lemma node_simps:
  "jname (node name ex cmd cl d1 d2) = (if ex then name else name @ '' [reuse]'')"
  "command (node name ex cmd cl d1 d2) = (if ex then Some cmd else None)"
  "on_cluster (node name ex cmd cl d1 d2) = (if ex then cl else None)"
  "dependencies (node name ex cmd cl d1 d2) = (if ex then d1 else d2)"
  by (simp_all add: node_def)

lemma node_forms:
  "REUSED (node name ex cmd cl d1 d2) = (\<not> ex)"
  "EXECUTED (node name ex cmd cl d1 d2) = ex"
  "named name (node name ex cmd cl d1 d2)"
  by (simp_all add: node_def REUSED_def EXECUTED_def named_def)

lemma chromosomes_eq:
  "chromosomes = [''1'', ''2'', ''3'', ''4'', ''5'', ''6'', ''7'', ''8'', ''9'', ''10'', ''11'',
     ''12'', ''13'', ''14'', ''15'', ''16'', ''17'', ''18'', ''19'', ''20'', ''21'', ''22'', ''X'', ''Y'']"
  unfolding chromosomes_def by code_simp

lemma length_chromosomes: "length chromosomes = 24"
  by (simp add: chromosomes_eq)

lemma add_variant_qc_jobs_eq:
  "add_variant_qc_jobs e a b =
     (if list_all (formats_ok e a) chromosomes
      then Inr [final_ht_j a (length (jobs b)) + 1..<
                final_ht_j a (length (jobs b)) + 1 + length chromosomes]
      else Inl FormatError,
      b\<lparr>clusters := clusters b @ qc_clusters a (length (jobs b)),
        jobs := jobs b @ stage_nodes e a (length (jobs b)) (length (clusters b)) @
          map (chrom_node e a (length (clusters b) + 3) (final_ht_j a (length (jobs b))))
            (takeWhile (formats_ok e a) chromosomes)\<rparr>)"
  using add_variant_qc_jobs_rf add_variant_qc_jobs_vqsr by blast

lemma created_eq:
  "created e a b =
     stage_nodes e a (length (jobs b)) (length (clusters b)) @
     map (chrom_node e a (length (clusters b) + 3) (final_ht_j a (length (jobs b))))
       (takeWhile (formats_ok e a) chromosomes)"
  by (simp add: created_def graph_def add_variant_qc_jobs_eq)

lemma length_stage_nodes: "length (stage_nodes e a n m) = (if run_rf a then 9 else 10)"
  by (simp add: stage_nodes_def common_nodes_def rf_nodes_def vqsr_nodes_def final_nodes_def)

lemma final_ht_j_eq: "final_ht_j a n + 1 = n + length (stage_nodes e a n m)"
  by (simp add: final_ht_j_def length_stage_nodes)

lemma graph_jobs:
  "jobs (graph e a b) = jobs b @ created e a b"
  by (simp add: created_def graph_def add_variant_qc_jobs_eq)

lemma created_prepare:
  "created e a b ! (if run_rf a then 8 else 9) =
     node ''Making final VCF: prepare HT''
        (\<not> reusable e a [export_ht_path a, export_vcf_header_txt a])
        (release_vcf_prepare_ht_cmd e a) (Some (length (clusters b) + 3))
        {final_ht_j a (length (jobs b)) - 1} {final_ht_j a (length (jobs b)) - 1}"
  by (simp add: created_eq stage_nodes_def common_nodes_def rf_nodes_def vqsr_nodes_def
        final_nodes_def final_ht_j_def nth_append)

lemma created_chrom:
  assumes "list_all (formats_ok e a) chromosomes" and "k < 24"
  shows "created e a b ! ((if run_rf a then 9 else 10) + k) =
     chrom_node e a (length (clusters b) + 3) (final_ht_j a (length (jobs b))) (chromosomes ! k)"
proof -
  have tw: "takeWhile (formats_ok e a) chromosomes = chromosomes"
    using assms(1) by (simp add: list_all_iff)
  show ?thesis
    using assms(2)
    by (simp add: created_eq tw nth_append length_stage_nodes length_chromosomes)
qed

lemma is_export_node:
  "is_export_stage (node name ex cmd cl d1 d2) =
     ((ex \<and> take 35 name = ''Making final VCF: HT to VCF for chr'') \<or>
      (\<not> ex \<and> take 35 (name @ '' [reuse]'') = ''Making final VCF: HT to VCF for chr''))"
  by (simp add: node_def is_export_stage_def)

lemma stage_nodes_not_export: "filter is_export_stage (stage_nodes e a n m) = []"
  by (simp add: stage_nodes_def common_nodes_def rf_nodes_def vqsr_nodes_def final_nodes_def
        is_export_node)

lemma chrom_node_export: "is_export_stage (chrom_node e a cl fh c)"
  by (simp add: chrom_node_def is_export_node)

section \<open>The per-chromosome fan-out\<close>

text \<open>
  C1. Every call of \<^verbatim>\<open>add_variant_qc_jobs\<close> that gets through the loop (the path pattern
  formats for each chromosome), under either value of \<^verbatim>\<open>run_rf\<close> and of
  \<^verbatim>\<open>overwrite\<close>, returns a list of exactly 24 distinct stages, the \<open>k\<close>-th named for the
  \<open>k\<close>-th chromosome of 1..22, X, Y (see \<open>chromosomes_eq\<close>). Each of them has exactly one
  dependency edge, to the one export-prepare stage \<open>p\<close>, which is not among the 24: so there is
  no edge among the 24. These are all the export stages that the call creates.
\<close>

theorem export_fan_out:
  assumes "\<forall>c \<in> set chromosomes. format_CHROM e (out_filtered_vcf_ptrn_path a) c \<noteq> None"
  shows "\<exists>js p.
      fst (add_variant_qc_jobs e a b) = Inr js
    \<and> length js = 24 \<and> distinct js
    \<and> (\<forall>k<24. named (''Making final VCF: HT to VCF for chr'' @ chromosomes ! k)
                    (jobs (graph e a b) ! (js ! k))
              \<and> dependencies (jobs (graph e a b) ! (js ! k)) = {p})
    \<and> p \<notin> set js \<and> p < length (jobs (graph e a b))
    \<and> named ''Making final VCF: prepare HT'' (jobs (graph e a b) ! p)
    \<and> map (\<lambda>j. jobs (graph e a b) ! j) js = filter is_export_stage (created e a b)
    \<and> length (filter is_export_stage (created e a b)) = 24"
proof -
  let ?n = "length (jobs b)" and ?m = "length (clusters b)"
  obtain s where s: "s = (if run_rf a then 8 else 9::nat)" by simp
  obtain p where p: "p = ?n + s" by simp
  obtain js where js: "js = [p + 1..<p + 1 + 24]" by simp
  have ok: "list_all (formats_ok e a) chromosomes"
    using assms by (auto simp: list_all_iff formats_ok_def)
  have tw: "takeWhile (formats_ok e a) chromosomes = chromosomes"
    using ok by (simp add: list_all_iff)
  have fh: "final_ht_j a ?n = p"
    by (simp add: final_ht_j_def p s)
  have ret: "fst (add_variant_qc_jobs e a b) = Inr js"
    using ok by (simp add: add_variant_qc_jobs_eq length_chromosomes js fh)
  have cr: "created e a b = stage_nodes e a ?n ?m @ map (chrom_node e a (?m + 3) p) chromosomes"
    by (simp add: created_eq tw fh)
  have len: "length (stage_nodes e a ?n ?m) = s + 1"
    by (simp add: length_stage_nodes s)
  have nth_chrom: "jobs (graph e a b) ! (js ! k) = chrom_node e a (?m + 3) p (chromosomes ! k)"
    if "k < 24" for k
    using that by (simp add: graph_jobs cr js p nth_append len length_chromosomes)
  have nth_prep: "jobs (graph e a b) ! p =
      node ''Making final VCF: prepare HT''
        (\<not> reusable e a [export_ht_path a, export_vcf_header_txt a])
        (release_vcf_prepare_ht_cmd e a) (Some (?m + 3))
        {final_ht_j a ?n - 1} {final_ht_j a ?n - 1}"
    using created_prepare [of e a b] by (simp add: graph_jobs p s)
  have each: "named (''Making final VCF: HT to VCF for chr'' @ chromosomes ! k)
                 (jobs (graph e a b) ! (js ! k))
              \<and> dependencies (jobs (graph e a b) ! (js ! k)) = {p}" if "k < 24" for k
    using that by (simp add: nth_chrom chrom_node_def node_forms node_simps)
  have filt: "filter is_export_stage (created e a b) = map (chrom_node e a (?m + 3) p) chromosomes"
    by (simp add: cr stage_nodes_not_export chrom_node_export)
  have maps: "map (\<lambda>j. jobs (graph e a b) ! j) js = map (chrom_node e a (?m + 3) p) chromosomes"
  proof (rule nth_equalityI)
    show "length (map (\<lambda>j. jobs (graph e a b) ! j) js) =
          length (map (chrom_node e a (?m + 3) p) chromosomes)"
      by (simp add: js length_chromosomes)
  next
    fix k assume "k < length (map (\<lambda>j. jobs (graph e a b) ! j) js)"
    then have k: "k < 24" by (simp add: js)
    then have "js ! k < p + 1 + 24 \<and> k < length js \<and> k < length chromosomes"
      by (simp add: js length_chromosomes)
    then show "map (\<lambda>j. jobs (graph e a b) ! j) js ! k =
               map (chrom_node e a (?m + 3) p) chromosomes ! k"
      using nth_chrom [OF k] by simp
  qed
  have "length js = 24 \<and> distinct js \<and> p \<notin> set js"
    by (simp add: js)
  moreover have "p < length (jobs (graph e a b))"
    by (simp add: graph_jobs cr len p)
  moreover have "named ''Making final VCF: prepare HT'' (jobs (graph e a b) ! p)"
    by (simp add: nth_prep node_forms)
  moreover have "length (filter is_export_stage (created e a b)) = 24"
    by (simp add: filt length_chromosomes)
  ultimately show ?thesis
    using ret each filt maps by auto
qed

theorem export_fan_out_witness:
  "\<exists>js. fst (add_variant_qc_jobs env0 args0 batch0) = Inr js \<and> length js = 24"
proof -
  have h: "\<forall>c \<in> set chromosomes. format_CHROM env0 (out_filtered_vcf_ptrn_path args0) c \<noteq> None"
    by (simp add: env0_def)
  from export_fan_out [OF h, of batch0] show ?thesis
    by blast
qed

section \<open>The two filtering branches\<close>

lemma named_node:
  "named n' (node name ex cmd cl d1 d2) =
     ((ex \<and> (name = n' \<or> name = n' @ '' [reuse]'')) \<or>
      (\<not> ex \<and> (name @ '' [reuse]'' = n' \<or> name = n')))"
  by (auto simp: named_def node_def)

lemma chrom_node_no_branch:
  "\<not> vqsr_branch_stage (chrom_node e a cl fh c)" "\<not> rf_branch_stage (chrom_node e a cl fh c)"
  by (simp_all add: vqsr_branch_stage_def rf_branch_stage_def chrom_node_def named_node)

lemma stage_nodes_rf_no_vqsr:
  "run_rf a \<Longrightarrow> list_all (\<lambda>j. \<not> vqsr_branch_stage j) (stage_nodes e a n m)"
  by (simp add: stage_nodes_def common_nodes_def rf_nodes_def final_nodes_def
        vqsr_branch_stage_def named_node)

lemma stage_nodes_vqsr_no_rf:
  "\<not> run_rf a \<Longrightarrow> list_all (\<lambda>j. \<not> rf_branch_stage j) (stage_nodes e a n m)"
  by (simp add: stage_nodes_def common_nodes_def vqsr_nodes_def final_nodes_def
        rf_branch_stage_def named_node)

lemma created_nth_stage:
  "k < (if run_rf a then 9 else 10) \<Longrightarrow>
     created e a b ! k = stage_nodes e a (length (jobs b)) (length (clusters b)) ! k"
  by (simp add: created_eq nth_append length_stage_nodes)

lemma stage_nodes_rf:
  "run_rf a \<Longrightarrow> stage_nodes e a n m =
     common_nodes e a n m @ rf_nodes e a n m @
     final_nodes e a (n + 6) m (join (rf_bucket a) ''final-filter.ht'')"
  by (simp add: stage_nodes_def)

lemma stage_nodes_vqsr:
  "\<not> run_rf a \<Longrightarrow> stage_nodes e a n m =
     common_nodes e a n m @ vqsr_nodes e a n m @
     final_nodes e a (n + 7) m (join (vqsr_bucket a) ''final-filter.ht'')"
  by (simp add: stage_nodes_def)

text \<open>
  C2. A graph built with \<^verbatim>\<open>run_rf\<close> has no stage of the recalibration branch (the AS-VQSR
  pipeline, load\_vqsr, AS-VQSR evaluation, AS-VQSR final filter, in either form) and has the
  three stages of the random-forest branch; a graph built without \<^verbatim>\<open>run_rf\<close> has no stage
  of the random-forest branch and has the four of the recalibration branch.
\<close>

theorem branches_exclusive:
  "(run_rf a \<longrightarrow>
      list_all (\<lambda>j. \<not> vqsr_branch_stage j) (created e a b)
      \<and> named ''Random forest'' (created e a b ! 4)
      \<and> named ''RF: evaluation'' (created e a b ! 5)
      \<and> named ''RF: final filter'' (created e a b ! 6))
   \<and> (\<not> run_rf a \<longrightarrow>
      list_all (\<lambda>j. \<not> rf_branch_stage j) (created e a b)
      \<and> named ''AS-VQSR'' (created e a b ! 4)
      \<and> named ''AS-VQSR: load_vqsr'' (created e a b ! 5)
      \<and> named ''AS-VQSR: evaluation'' (created e a b ! 6)
      \<and> named ''AS-VQSR: final filter'' (created e a b ! 7))"
proof (intro conjI impI)
  assume rf: "run_rf a"
  show "list_all (\<lambda>j. \<not> vqsr_branch_stage j) (created e a b)"
    using stage_nodes_rf_no_vqsr [OF rf]
    by (auto simp add: created_eq list_all_iff chrom_node_no_branch)
  show "named ''Random forest'' (created e a b ! 4)"
    "named ''RF: evaluation'' (created e a b ! 5)"
    "named ''RF: final filter'' (created e a b ! 6)"
    using rf
    by (simp_all add: created_nth_stage stage_nodes_rf common_nodes_def rf_nodes_def node_forms)
next
  assume rf: "\<not> run_rf a"
  show "list_all (\<lambda>j. \<not> rf_branch_stage j) (created e a b)"
    using stage_nodes_vqsr_no_rf [OF rf]
    by (auto simp add: created_eq list_all_iff chrom_node_no_branch)
  show "named ''AS-VQSR'' (created e a b ! 4)"
    "named ''AS-VQSR: load_vqsr'' (created e a b ! 5)"
    "named ''AS-VQSR: evaluation'' (created e a b ! 6)"
    "named ''AS-VQSR: final filter'' (created e a b ! 7)"
    using rf
    by (simp_all add: created_nth_stage stage_nodes_vqsr common_nodes_def vqsr_nodes_def node_forms)
qed

theorem branches_exclusive_witness:
  "list_all (\<lambda>j. \<not> vqsr_branch_stage j) (created env0 args0 batch0)
   \<and> named ''Random forest'' (created env0 args0 batch0 ! 4)"
  using branches_exclusive [of args0 env0 batch0] by (simp add: args0_def)

section \<open>The cutoff checks of the final filter\<close>

text \<open>
  C6. For each variant class, both cutoffs supplied raise a configuration error, and so
  does neither; with exactly one of the two, the call raises neither of the two errors of
  that class. With exactly one for each class, and the aggregated-bin table and the bin id
  supplied whenever a bin cutoff is used, no configuration error is raised at all: the
  call goes on to the tables.
\<close>

theorem exactly_one_cutoff_per_class:
  fixes tables :: "int option \<Rightarrow> int option \<Rightarrow> 's option \<Rightarrow> 's option \<Rightarrow> 't option \<Rightarrow> string option
     \<Rightarrow> string + 'h"
  shows
  "(snp_bin \<noteq> None \<and> snp_score \<noteq> None \<longrightarrow>
      generate_final_filter_ht tables snp_bin indel_bin snp_score indel_score agg bin_id
        = Inl SnpCutoffsMutuallyExclusive)
   \<and> (indel_bin \<noteq> None \<and> indel_score \<noteq> None \<longrightarrow>
      raises_configuration_error
        (generate_final_filter_ht tables snp_bin indel_bin snp_score indel_score agg bin_id))
   \<and> (snp_bin = None \<and> snp_score = None \<longrightarrow>
      raises_configuration_error
        (generate_final_filter_ht tables snp_bin indel_bin snp_score indel_score agg bin_id))
   \<and> (indel_bin = None \<and> indel_score = None \<longrightarrow>
      raises_configuration_error
        (generate_final_filter_ht tables snp_bin indel_bin snp_score indel_score agg bin_id))
   \<and> (exactly_one snp_bin snp_score \<longrightarrow>
      generate_final_filter_ht tables snp_bin indel_bin snp_score indel_score agg bin_id
        \<noteq> Inl SnpCutoffsMutuallyExclusive \<and>
      generate_final_filter_ht tables snp_bin indel_bin snp_score indel_score agg bin_id
        \<noteq> Inl SnpCutoffMissing)
   \<and> (exactly_one indel_bin indel_score \<longrightarrow>
      generate_final_filter_ht tables snp_bin indel_bin snp_score indel_score agg bin_id
        \<noteq> Inl IndelCutoffsMutuallyExclusive \<and>
      generate_final_filter_ht tables snp_bin indel_bin snp_score indel_score agg bin_id
        \<noteq> Inl IndelCutoffMissing)
   \<and> (exactly_one snp_bin snp_score \<and> exactly_one indel_bin indel_score
        \<and> (snp_bin \<noteq> None \<or> indel_bin \<noteq> None \<longrightarrow> agg \<noteq> None \<and> bin_id \<noteq> None) \<longrightarrow>
      \<not> raises_configuration_error
        (generate_final_filter_ht tables snp_bin indel_bin snp_score indel_score agg bin_id))"
  by (cases snp_bin; cases indel_bin; cases snp_score; cases indel_score; cases agg; cases bin_id)
    (simp_all add: generate_final_filter_ht_def raises_configuration_error_def
        configuration_error_def exactly_one_def split: sum.splits)

theorem exactly_one_cutoff_per_class_witness:
  "generate_final_filter_ht (tables0 ()) (Some 90) None (Some 3) None None None
     = Inl SnpCutoffsMutuallyExclusive
   \<and> raises_configuration_error
       (generate_final_filter_ht (tables0 ()) None None None (Some 3) None None)
   \<and> \<not> raises_configuration_error
       (generate_final_filter_ht (tables0 ()) (Some 90) None None (Some 3) (Some ()) (Some ''bin''))"
  using exactly_one_cutoff_per_class [where tables = "tables0 ()" and snp_bin = "Some 90" and snp_score = "Some 3"
      and indel_bin = None and indel_score = None and agg = None and bin_id = None]
    exactly_one_cutoff_per_class [where tables = "tables0 ()" and snp_bin = None and snp_score = None
      and indel_bin = None and indel_score = "Some 3" and agg = None and bin_id = None]
    exactly_one_cutoff_per_class [where tables = "tables0 ()" and snp_bin = "Some 90" and snp_score = None
      and indel_bin = None and indel_score = "Some 3" and agg = "Some ()" and bin_id = "Some ''bin''"]
  by (simp add: exactly_one_def)

section \<open>The missing aggregated-bin table\<close>

lemma reads_utils:
  "reads [''utils''] = Inr ()"
  by (simp add: reads_def module_names_def)

lemma reads_get_score_bins:
  "reads (''get_score_bins'' # names) = Inl (NameError ''get_score_bins'')"
  by (simp add: reads_def module_names_def)

text \<open>
  C8 describes lines 333 to 337, which \<^verbatim>\<open>main\<close> never reaches. Whether or not the
  aggregated-bin table of the model id exists, and whatever the model id, the cutoffs and
  the tables are, a call of \<^verbatim>\<open>main\<close> that gets past \<^verbatim>\<open>init_hail\<close> ends at line 320 in the
  \<^verbatim>\<open>NameError\<close> of \<^verbatim>\<open>get_score_bins\<close>: it does not exit with the message that names the
  model id and the path.
\<close>

theorem main_stops_at_undefined_name:
  "main init_hail exists aggregated_path loaded aggregated_ht tables model_id
     snp_bin indel_bin snp_score indel_score =
   (case init_hail of
      Inl err \<Rightarrow> Inl err
    | Inr local_tmp_dir \<Rightarrow> Inl (NameError ''get_score_bins''))"
  by (simp add: main_def reads_utils reads_get_score_bins split: sum.splits)

section \<open>Where the cutoffs are validated\<close>





lemma join_vqsr0:
  "vqsr_bucket args_ow = ''gs://work/vqsr''"
  "join ''gs://work/vqsr'' ''final-filter.ht'' = ''gs://work/vqsr/final-filter.ht''"
  by (simp_all add: vqsr_bucket_def args_ow_def args0_def join_def)

section \<open>The overwrite flag\<close>

text \<open>
  C3 is right about every stage but one, which the code misses. In a run of the
  recalibration branch with the overwrite flag set, where the final-filter table already
  exists, every other stage is EXECUTED, and the AS-VQSR final-filter stage (the eighth
  stage created) is the placeholder: line 420 tests the existence of the table alone.
\<close>

theorem vqsr_final_filter_reused_under_overwrite:
  "overwrite args_ow
   \<and> length (created env_ff args_ow batch0) = 34
   \<and> jname (created env_ff args_ow batch0 ! 7) = ''AS-VQSR: final filter [reuse]''
   \<and> command (created env_ff args_ow batch0 ! 7) = None
   \<and> filter REUSED (created env_ff args_ow batch0)
       = [created env_ff args_ow batch0 ! 7]"
proof -
  have ow: "overwrite args_ow" and rf: "\<not> run_rf args_ow"
    by (simp_all add: args_ow_def)
  have no: "\<not> reusable env_ff args_ow ps" for ps
    by (simp add: reusable_def ow)
  have ff: "file_exists env_ff (join (vqsr_bucket args_ow) ''final-filter.ht'')"
    by (simp add: join_vqsr0 env_ff_def)
  have tw: "takeWhile (formats_ok env_ff args_ow) chromosomes = chromosomes"
    by (rule takeWhile_eq_all_conv [THEN iffD2]) (simp add: formats_ok_def env_ff_def env0_def)
  have cr: "created env_ff args_ow batch0 =
      stage_nodes env_ff args_ow 0 0 @ map (chrom_node env_ff args_ow 3 9) chromosomes"
    by (simp add: created_eq tw batch0_def final_ht_j_def rf)
  have seven: "created env_ff args_ow batch0 ! 7 =
      node ''AS-VQSR: final filter'' False
        (vqsr_final_filter_cmd env_ff (join (vqsr_bucket args_ow) ''final-filter.ht'')
           (join (vqsr_bucket args_ow) ''vqsr-filters-split.ht'') ''vqsr_model''
           (info_split_ht_path args_ow) (freq_ht_path args_ow)
           (join (vqsr_bucket args_ow) ''vqsr-score-bin.ht'')
           (join (vqsr_bucket args_ow) ''vqsr-score-agg-bin.ht'') (vqsr_bucket args_ow))
        (Some 3) {4, 3, 0, 6} {4, 3, 0}"
    by (simp add: created_nth_stage rf batch0_def stage_nodes_vqsr [OF rf] common_nodes_def
          vqsr_nodes_def ff)
  have st: "filter REUSED (stage_nodes env_ff args_ow 0 0) =
      [created env_ff args_ow batch0 ! 7]"
    by (simp add: seven stage_nodes_vqsr [OF rf] common_nodes_def vqsr_nodes_def final_nodes_def
          node_forms no ff)
  have ch: "filter REUSED (map (chrom_node env_ff args_ow 3 9) chromosomes) = []"
    by (simp add: filter_empty_conv chrom_node_def node_forms no)
  have "length (created env_ff args_ow batch0) = 34"
    by (simp add: cr length_stage_nodes rf length_chromosomes)
  moreover have "filter REUSED (created env_ff args_ow batch0)
      = [created env_ff args_ow batch0 ! 7]"
    using st ch by (simp add: cr)
  ultimately show ?thesis
    by (simp add: ow seven node_simps)
qed

section \<open>Reuse when the targets exist\<close>

lemma REUSED_stage_nodes:
  "\<not> overwrite a \<Longrightarrow>
     map REUSED (stage_nodes e a n m) =
     map (list_all (file_exists e)) (take (if run_rf a then 9 else 10) (stage_targets e a))"
  by (auto simp add: stage_nodes_def common_nodes_def rf_nodes_def vqsr_nodes_def
        final_nodes_def stage_targets_def node_forms reusable_def)

lemma REUSED_created:
  assumes "\<not> overwrite a"
  shows "map REUSED (created e a b) = map (list_all (file_exists e)) (stage_targets e a)"
proof -
  have "map REUSED (map (chrom_node e a cl fh) cs) =
      map (list_all (file_exists e)) (map (\<lambda>chrom. [vcf_path e a chrom]) cs)" for cl fh cs
    using assms by (simp add: chrom_node_def node_forms reusable_def)
  moreover have "drop (if run_rf a then 9 else 10) (stage_targets e a) =
      map (\<lambda>chrom. [vcf_path e a chrom]) (takeWhile (formats_ok e a) chromosomes)"
    by (simp add: stage_targets_def)
  moreover have "stage_targets e a =
      take (if run_rf a then 9 else 10) (stage_targets e a) @
      drop (if run_rf a then 9 else 10) (stage_targets e a)"
    by simp
  ultimately show ?thesis
    using REUSED_stage_nodes [OF assms, of e _ _]
    by (metis created_eq map_append)
qed

text \<open>
  C4. Without the overwrite flag, each stage that the call creates is built in REUSED form
  (no command) iff every path that its reuse check lists exists, and in EXECUTED form iff
  one of them is missing. The first stage created is the info stage, reused exactly when
  \<^verbatim>\<open>info.ht\<close> and \<^verbatim>\<open>info-split.ht\<close> both exist; the export-prepare stage is reused
  exactly when the export table and the header file both exist.
\<close>

theorem reused_iff_targets_exist:
  assumes "\<not> overwrite a"
  shows "length (created e a b) = length (stage_targets e a)
    \<and> (\<forall>k < length (created e a b).
          (REUSED (created e a b ! k) = list_all (file_exists e) (stage_targets e a ! k))
          \<and> (EXECUTED (created e a b ! k) =
               list_ex (\<lambda>p. \<not> file_exists e p) (stage_targets e a ! k)))
    \<and> named ''Var QC: generate info'' (created e a b ! 0)
    \<and> (REUSED (created e a b ! 0) =
          (file_exists e (info_ht_path a) \<and> file_exists e (info_split_ht_path a)))
    \<and> named ''Making final VCF: prepare HT'' (created e a b ! (if run_rf a then 8 else 9))
    \<and> (REUSED (created e a b ! (if run_rf a then 8 else 9)) =
          (file_exists e (export_ht_path a) \<and> file_exists e (export_vcf_header_txt a)))"
proof -
  have m: "map REUSED (created e a b) = map (list_all (file_exists e)) (stage_targets e a)"
    by (rule REUSED_created [OF assms])
  then have len: "length (created e a b) = length (stage_targets e a)"
    by (metis length_map)
  have each: "REUSED (created e a b ! k) = list_all (file_exists e) (stage_targets e a ! k)"
    if "k < length (created e a b)" for k
    using that m len by (metis nth_map)
  have ex: "EXECUTED j = (\<not> REUSED j)" for j
    by (simp add: EXECUTED_def REUSED_def)
  have neg: "list_ex (\<lambda>p. \<not> file_exists e p) ps = (\<not> list_all (file_exists e) ps)" for ps
    by (simp add: list_ex_iff list_all_iff)
  have info: "created e a b ! 0 =
      node ''Var QC: generate info'' (\<not> reusable e a [info_ht_path a, info_split_ht_path a])
        (generate_info_cmd e a) (Some (length (clusters b))) (upstream a) (upstream a)"
    by (simp add: created_nth_stage stage_nodes_def common_nodes_def)
  have "named ''Var QC: generate info'' (created e a b ! 0)"
    by (simp add: info node_forms)
  moreover have "REUSED (created e a b ! 0) =
      (file_exists e (info_ht_path a) \<and> file_exists e (info_split_ht_path a))"
    using assms by (simp add: info node_forms reusable_def)
  moreover have "named ''Making final VCF: prepare HT'' (created e a b ! (if run_rf a then 8 else 9))"
    by (simp only: created_prepare node_forms)
  moreover have "REUSED (created e a b ! (if run_rf a then 8 else 9)) =
      (file_exists e (export_ht_path a) \<and> file_exists e (export_vcf_header_txt a))"
    using assms by (simp only: created_prepare node_forms) (simp add: reusable_def)
  ultimately show ?thesis
    using len each by (simp add: ex neg)
qed

theorem reused_iff_targets_exist_witness:
  "length (created env_all args0 batch0) = length (stage_targets env_all args0)
   \<and> REUSED (created env_all args0 batch0 ! 0)
   \<and> REUSED (created env_all args0 batch0 ! 8)
   \<and> \<not> REUSED (created env0 args0 batch0 ! 0)"
proof -
  have h: "\<not> overwrite args0"
    by (simp add: args0_def)
  from reused_iff_targets_exist [OF h, of env_all batch0]
    reused_iff_targets_exist [OF h, of env0 batch0]
  show ?thesis
    by (simp add: env_all_def env0_def args0_def)
qed

section \<open>The edges of a reused stage\<close>

text \<open>
  C5, as stated, fails. In the run in which every artifact exists, the export-prepare stage
  is a placeholder and depends on the final-dataset stage, and the export stage of
  chromosome 1 is a placeholder and depends on the export-prepare stage.
\<close>

theorem reused_stage_with_edges:
  "jname (created env_all args0 batch0 ! 8) = ''Making final VCF: prepare HT [reuse]''
   \<and> command (created env_all args0 batch0 ! 8) = None
   \<and> dependencies (created env_all args0 batch0 ! 8) = {7}
   \<and> jname (created env_all args0 batch0 ! 9) = ''Making final VCF: HT to VCF for chr1 [reuse]''
   \<and> command (created env_all args0 batch0 ! 9) = None
   \<and> dependencies (created env_all args0 batch0 ! 9) = {8}"
proof -
  have rf: "run_rf args0" and ow: "\<not> overwrite args0"
    by (simp_all add: args0_def)
  have re: "reusable env_all args0 ps" for ps
    by (simp add: reusable_def ow env_all_def list_all_iff)
  have ok: "list_all (formats_ok env_all args0) chromosomes"
    by (simp add: list_all_iff formats_ok_def env_all_def env0_def)
  have eight: "created env_all args0 batch0 ! 8 =
      node ''Making final VCF: prepare HT'' False (release_vcf_prepare_ht_cmd env_all args0)
        (Some 3) {7} {7}"
    using created_prepare [of env_all args0 batch0]
    by (simp add: rf re batch0_def final_ht_j_def)
  have nine: "created env_all args0 batch0 ! 9 =
      chrom_node env_all args0 3 8 (chromosomes ! 0)"
    using created_chrom [OF ok, of 0 batch0] by (simp add: rf batch0_def final_ht_j_def)
  show ?thesis
    by (simp add: eight nine chrom_node_def node_simps re chromosomes_eq)
qed

lemma keeps_stage_nodes:
  "list_all (keeps_reused_edges a n) (stage_nodes e a n m)"
  by (simp add: stage_nodes_def common_nodes_def rf_nodes_def vqsr_nodes_def final_nodes_def
        keeps_reused_edges_def reused_edges_def node_forms node_simps named_node is_export_node
        final_ht_j_def)

lemma keeps_chrom_node:
  "keeps_reused_edges a n (chrom_node e a cl (final_ht_j a n) c)"
  by (simp add: keeps_reused_edges_def reused_edges_def chrom_node_def node_forms node_simps
        named_node is_export_node)

text \<open>
  C5, amended. A stage built in REUSED form carries no dependency edge, except at the four
  places where the function adds the edges after the \<^verbatim>\<open>if\<close>/\<^verbatim>\<open>else\<close>, in either
  form: the info stage keeps its edges to the run-level upstream list, the AS-VQSR
  final-filter stage its edges to the recalibration-pipeline, RF-annotation and info
  stages, the export-prepare stage its edge to the final-dataset stage, and each
  per-chromosome export stage its edge to the export-prepare stage.
\<close>

theorem reused_stage_edges:
  "list_all (keeps_reused_edges a (length (jobs b))) (created e a b)"
  using keeps_stage_nodes [of a "length (jobs b)" e "length (clusters b)"]
  by (auto simp add: created_eq list_all_iff keeps_chrom_node)

theorem reused_stage_edges_witness:
  "REUSED (created env_all args0 batch0 ! 4)
   \<and> dependencies (created env_all args0 batch0 ! 4) = {}
   \<and> named ''Random forest'' (created env_all args0 batch0 ! 4)"
proof -
  have rf: "run_rf args0" and ow: "\<not> overwrite args0"
    by (simp_all add: args0_def)
  have re: "reusable env_all args0 ps" for ps
    by (simp add: reusable_def ow env_all_def list_all_iff)
  have four: "created env_all args0 batch0 ! 4 =
      node ''Random forest'' False (random_forest_cmd env_all args0) (Some 3) {3} {}"
    by (simp add: created_nth_stage rf stage_nodes_rf common_nodes_def rf_nodes_def re batch0_def)
  have mem: "created env_all args0 batch0 ! 4 \<in> set (created env_all args0 batch0)"
    by (rule nth_mem) (simp add: created_eq length_stage_nodes rf)
  from reused_stage_edges [of args0 batch0 env_all] mem
  have "keeps_reused_edges args0 (length (jobs batch0)) (created env_all args0 batch0 ! 4)"
    by (simp add: list_all_iff)
  then show ?thesis
    by (simp add: keeps_reused_edges_def reused_edges_def four node_forms node_simps named_node
          is_export_node)
qed

section \<open>The reuse check of the two evaluation stages\<close>

lemma rf_eval_job:
  "jobs (snd (add_rf_eval_jobs e cl mt info rfres rfanno fam freq mid wb ow deps b)) ! length (jobs b) =
     node ''RF: evaluation'' (ow \<or> \<not> file_exists e (join wb ''rf-score-bin.ht''))
       (rf_evaluation_cmd e mt rfanno info rfres fam wb (join wb ''rf-score-bin.ht'')
          (join wb ''rf-score-agg-bin.ht''))
       (Some cl) (set (or_empty deps)) {}"
  by (simp add: add_rf_eval_jobs_eq)

lemma vqsr_eval_job:
  "jobs (snd (add_vqsr_eval_jobs e cl mt rfanno info vcf rfres fam freq wb ab ow vj rj out b))
       ! (length (jobs b) + 1) =
     node ''AS-VQSR: evaluation''
       (ow \<or> \<not> file_exists e (join wb ''vqsr-score-bin.ht'')
           \<or> \<not> file_exists e (join wb ''vqsr-score-agg-bin.ht''))
       (vqsr_evaluation_cmd e mt rfanno info fam rfres (join wb ''vqsr-filters-split.ht'') wb
          (join wb ''vqsr-score-bin.ht'') (join wb ''vqsr-score-agg-bin.ht''))
       (Some cl) {length (jobs b), rj} {}"
  by (simp add: add_vqsr_eval_jobs_eq nth_append)

text \<open>
  C9. The RF evaluation stage of \<^verbatim>\<open>add_rf_eval_jobs\<close> is REUSED iff the overwrite flag is
  not set and the per-variant score-bin table exists: the aggregated-bin table is not
  looked at, so the stage is a placeholder without command when only the aggregated table
  is missing. The evaluation stage of \<^verbatim>\<open>add_vqsr_eval_jobs\<close> is REUSED iff the flag is not
  set and both of its bin tables exist, so it is EXECUTED whenever one of them is missing.
\<close>

theorem rf_evaluation_reuse_ignores_aggregated_bins:
  "(REUSED (jobs (snd (add_rf_eval_jobs e cl mt info rfres rfanno fam freq mid wb ow deps b))
              ! length (jobs b))
      = (\<not> ow \<and> file_exists e (join wb ''rf-score-bin.ht'')))
   \<and> named ''RF: evaluation''
        (jobs (snd (add_rf_eval_jobs e cl mt info rfres rfanno fam freq mid wb ow deps b))
           ! length (jobs b))
   \<and> (\<not> ow \<and> file_exists e (join wb ''rf-score-bin.ht'')
         \<and> \<not> file_exists e (join wb ''rf-score-agg-bin.ht'') \<longrightarrow>
       command (jobs (snd (add_rf_eval_jobs e cl mt info rfres rfanno fam freq mid wb ow deps b))
                  ! length (jobs b)) = None)
   \<and> (REUSED (jobs (snd (add_vqsr_eval_jobs e cl mt rfanno info vcf rfres' fam freq wb' ab ow
                            vj rj out b)) ! (length (jobs b) + 1))
      = (\<not> ow \<and> file_exists e (join wb' ''vqsr-score-bin.ht'')
           \<and> file_exists e (join wb' ''vqsr-score-agg-bin.ht'')))
   \<and> named ''AS-VQSR: evaluation''
        (jobs (snd (add_vqsr_eval_jobs e cl mt rfanno info vcf rfres' fam freq wb' ab ow
                      vj rj out b)) ! (length (jobs b) + 1))
   \<and> (\<not> file_exists e (join wb' ''vqsr-score-bin.ht'')
         \<or> \<not> file_exists e (join wb' ''vqsr-score-agg-bin.ht'') \<longrightarrow>
       EXECUTED (jobs (snd (add_vqsr_eval_jobs e cl mt rfanno info vcf rfres' fam freq wb' ab ow
                              vj rj out b)) ! (length (jobs b) + 1)))"
  by (simp only: rf_eval_job vqsr_eval_job node_forms node_simps) auto

theorem rf_evaluation_reuse_ignores_aggregated_bins_witness:
  "command (jobs (snd (add_rf_eval_jobs env_bins 3 ''gs://work/raw.mt'' ''gs://work/info-split.ht''
       ''gs://work/rf-result.ht'' ''gs://work/rf-annotations.ht'' None ''gs://work/frequencies.ht''
       ''rf_0f8fad5b'' ''gs://work/rf'' False None batch0)) ! length (jobs batch0)) = None
   \<and> EXECUTED (jobs (snd (add_vqsr_eval_jobs env_bins 3 ''gs://work/raw.mt''
       ''gs://work/rf-annotations.ht'' ''gs://work/info-split.ht'' ''gs://work/vqsr/output.vcf.gz''
       None None ''gs://work/frequencies.ht'' ''gs://work/rf'' ''gs://web/vqsr'' False 0 1
       ''gs://work/vqsr/final-filter.ht'' batch0)) ! (length (jobs batch0) + 1))"
  using rf_evaluation_reuse_ignores_aggregated_bins [where e = env_bins and cl = 3
      and mt = "''gs://work/raw.mt''" and info = "''gs://work/info-split.ht''"
      and rfres = "''gs://work/rf-result.ht''" and rfanno = "''gs://work/rf-annotations.ht''"
      and fam = None and freq = "''gs://work/frequencies.ht''" and mid = "''rf_0f8fad5b''"
      and wb = "''gs://work/rf''" and ow = False and deps = None and b = batch0
      and vcf = "''gs://work/vqsr/output.vcf.gz''" and rfres' = None and wb' = "''gs://work/rf''"
      and ab = "''gs://web/vqsr''" and vj = 0 and rj = 1 and out = "''gs://work/vqsr/final-filter.ht''"]
  by (simp add: env_bins_def join_def)

section \<open>The random model identifier\<close>

lemma random_forest_cmd_differs:
  "take 8 u1 \<noteq> take 8 u2 \<Longrightarrow>
     random_forest_cmd (e\<lparr>uuid4 := u1\<rparr>) a \<noteq> random_forest_cmd (e\<lparr>uuid4 := u2\<rparr>) a"
  by (simp add: random_forest_cmd_def rf_model_id_def)

lemma rf_final_filter_cmd_differs:
  "take 8 u1 \<noteq> take 8 u2 \<Longrightarrow>
     rf_final_filter_cmd (e\<lparr>uuid4 := u1\<rparr>) ff (rf_model_id (e\<lparr>uuid4 := u1\<rparr>)) i f sb sa wb \<noteq>
     rf_final_filter_cmd (e\<lparr>uuid4 := u2\<rparr>) ff (rf_model_id (e\<lparr>uuid4 := u2\<rparr>)) i f sb sa wb"
  by (simp add: rf_final_filter_cmd_def rf_model_id_def)

lemma reusable_uuid4: "reusable (e\<lparr>uuid4 := u\<rparr>) a ps = reusable e a ps"
  by (simp add: reusable_def)

lemma rf_stage_4:
  "run_rf a \<Longrightarrow> created e a b ! 4 =
     node ''Random forest'' (\<not> reusable e a [rf_result_ht_path a]) (random_forest_cmd e a)
       (Some (length (clusters b) + 3)) {length (jobs b) + 3} {}"
  by (simp add: created_nth_stage stage_nodes_rf common_nodes_def rf_nodes_def)

lemma rf_stage_6:
  "run_rf a \<Longrightarrow> created e a b ! 6 =
     node ''RF: final filter'' (\<not> reusable e a [join (rf_bucket a) ''final-filter.ht''])
       (rf_final_filter_cmd e (join (rf_bucket a) ''final-filter.ht'') (rf_model_id e)
          (info_split_ht_path a) (freq_ht_path a) (join (rf_bucket a) ''rf-score-bin.ht'')
          (join (rf_bucket a) ''rf-score-agg-bin.ht'') (rf_bucket a))
       (Some (length (clusters b) + 3)) {length (jobs b) + 5} {}"
  by (simp add: created_nth_stage stage_nodes_rf common_nodes_def rf_nodes_def)

text \<open>
  C10. With \<^verbatim>\<open>run_rf\<close>, the graph depends on the UUID that the call draws: for two draws
  that differ in their first eight characters and the same arguments, batch and store,
  the random-forest stage, when it is not reused, carries two different commands, so the
  two calls give different results; and so does the RF final-filter stage, when it is not
  reused.
\<close>

theorem rf_model_id_random:
  assumes "run_rf a" and "take 8 u1 \<noteq> take 8 u2"
  shows "named ''Random forest'' (created (e\<lparr>uuid4 := u1\<rparr>) a b ! 4)
    \<and> named ''RF: final filter'' (created (e\<lparr>uuid4 := u1\<rparr>) a b ! 6)
    \<and> (overwrite a \<or> \<not> file_exists e (rf_result_ht_path a) \<longrightarrow>
         EXECUTED (created (e\<lparr>uuid4 := u1\<rparr>) a b ! 4)
         \<and> EXECUTED (created (e\<lparr>uuid4 := u2\<rparr>) a b ! 4)
         \<and> command (created (e\<lparr>uuid4 := u1\<rparr>) a b ! 4) \<noteq> command (created (e\<lparr>uuid4 := u2\<rparr>) a b ! 4)
         \<and> add_variant_qc_jobs (e\<lparr>uuid4 := u1\<rparr>) a b \<noteq> add_variant_qc_jobs (e\<lparr>uuid4 := u2\<rparr>) a b)
    \<and> (overwrite a \<or> \<not> file_exists e (join (rf_bucket a) ''final-filter.ht'') \<longrightarrow>
         command (created (e\<lparr>uuid4 := u1\<rparr>) a b ! 6) \<noteq> command (created (e\<lparr>uuid4 := u2\<rparr>) a b ! 6))"
proof (intro conjI impI)
  show "named ''Random forest'' (created (e\<lparr>uuid4 := u1\<rparr>) a b ! 4)"
    by (simp add: rf_stage_4 [OF assms(1)] node_forms)
  show "named ''RF: final filter'' (created (e\<lparr>uuid4 := u1\<rparr>) a b ! 6)"
    by (simp add: rf_stage_6 [OF assms(1)] node_forms)
next
  assume "overwrite a \<or> \<not> file_exists e (rf_result_ht_path a)"
  then have ex: "\<not> reusable e a [rf_result_ht_path a]"
    by (auto simp: reusable_def)
  show "EXECUTED (created (e\<lparr>uuid4 := u1\<rparr>) a b ! 4)"
    "EXECUTED (created (e\<lparr>uuid4 := u2\<rparr>) a b ! 4)"
    using ex by (simp_all add: rf_stage_4 [OF assms(1)] node_forms reusable_uuid4)
  show ne: "command (created (e\<lparr>uuid4 := u1\<rparr>) a b ! 4) \<noteq> command (created (e\<lparr>uuid4 := u2\<rparr>) a b ! 4)"
    using ex random_forest_cmd_differs [OF assms(2), of e a]
    by (simp add: rf_stage_4 [OF assms(1)] node_simps reusable_uuid4)
  show "add_variant_qc_jobs (e\<lparr>uuid4 := u1\<rparr>) a b \<noteq> add_variant_qc_jobs (e\<lparr>uuid4 := u2\<rparr>) a b"
  proof
    assume "add_variant_qc_jobs (e\<lparr>uuid4 := u1\<rparr>) a b = add_variant_qc_jobs (e\<lparr>uuid4 := u2\<rparr>) a b"
    then have "created (e\<lparr>uuid4 := u1\<rparr>) a b = created (e\<lparr>uuid4 := u2\<rparr>) a b"
      by (simp add: created_def graph_def)
    with ne show False
      by simp
  qed
next
  assume "overwrite a \<or> \<not> file_exists e (join (rf_bucket a) ''final-filter.ht'')"
  then have ex: "\<not> reusable e a [join (rf_bucket a) ''final-filter.ht'']"
    by (auto simp: reusable_def)
  show "command (created (e\<lparr>uuid4 := u1\<rparr>) a b ! 6) \<noteq> command (created (e\<lparr>uuid4 := u2\<rparr>) a b ! 6)"
    using ex rf_final_filter_cmd_differs [OF assms(2), of e]
    by (simp add: rf_stage_6 [OF assms(1)] node_simps reusable_uuid4)
qed

theorem rf_model_id_random_witness:
  "command (created (env0\<lparr>uuid4 := ''0f8fad5b-d9cb-469f-a165-70867728950e''\<rparr>) args0 batch0 ! 4)
     \<noteq> command (created (env0\<lparr>uuid4 := ''7c9e6679-7425-40de-944b-e07fc1f90ae7''\<rparr>) args0 batch0 ! 4)
   \<and> add_variant_qc_jobs (env0\<lparr>uuid4 := ''0f8fad5b-d9cb-469f-a165-70867728950e''\<rparr>) args0 batch0
     \<noteq> add_variant_qc_jobs (env0\<lparr>uuid4 := ''7c9e6679-7425-40de-944b-e07fc1f90ae7''\<rparr>) args0 batch0"
proof -
  have rf: "run_rf args0"
    by (simp add: args0_def)
  have d: "take 8 ''0f8fad5b-d9cb-469f-a165-70867728950e''
      \<noteq> take 8 ''7c9e6679-7425-40de-944b-e07fc1f90ae7''"
    by simp
  have m: "\<not> file_exists env0 (rf_result_ht_path args0)"
    by (simp add: env0_def)
  from rf_model_id_random [OF rf d, of env0 batch0] m show ?thesis
    by simp
qed

end
